theory Spec2Isabelle
  imports Complex_Main
begin

section \<open>Python values shared by both scripts\<close>

text \<open>
  Exceptions are values. \<open>ValueError\<close>, \<open>TypeError\<close>, \<open>KeyError\<close>,
  \<open>ZeroDivisionError\<close> and \<open>OverflowError\<close> are the exceptions the two scripts raise
  themselves (or that the Python interpreter raises inside their own statements);
  \<open>FrameworkError\<close> stands for an exception raised inside a call of the deep-learning
  framework (a missing checkpoint, a tensor missing from a checkpoint), which the scripts
  let pass.
\<close>

datatype error =
    ValueError string
  | TypeError string
  | KeyError int
  | ZeroDivisionError string
  | OverflowError string
  | FrameworkError string

text \<open>\<open>a or b\<close> on an optional string and on an optional integer.\<close>

definition or_str :: "string option \<Rightarrow> string \<Rightarrow> string" where
  "or_str a b = (case a of None \<Rightarrow> b | Some v \<Rightarrow> if v \<noteq> [] then v else b)"

definition or_int :: "int option \<Rightarrow> int \<Rightarrow> int" where
  "or_int a b = (case a of None \<Rightarrow> b | Some v \<Rightarrow> if v \<noteq> 0 then v else b)"

text \<open>\<open>sub in s\<close> on strings: \<open>sub\<close> occurs in \<open>s\<close> as a contiguous run.\<close>

fun starts_with :: "string \<Rightarrow> string \<Rightarrow> bool" where
  "starts_with [] s = True"
| "starts_with (c # p) [] = False"
| "starts_with (c # p) (d # s) = (c = d \<and> starts_with p s)"

fun str_in :: "string \<Rightarrow> string \<Rightarrow> bool" where
  "str_in sub [] = (sub = [])"
| "str_in sub (c # s) = (starts_with sub (c # s) \<or> str_in sub s)"


section \<open>The evaluation driver (eval_image_classifier.py)\<close>

subsection \<open>Command-line flags\<close>

text \<open>
  One field per \<open>DEFINE_*\<close> of the script, with the declared type; a flag whose default
  is \<open>None\<close> is an option. \<open>default_flags\<close> holds the declared defaults.
\<close>

record flags =
  batch_size :: int
  max_num_batches :: "int option"
  master :: string
  checkpoint_path :: "string option"
  eval_dir :: "string option"
  output_path :: "string option"
  num_preprocessing_threads :: int
  dataset_name :: string
  dataset_split_name :: string
  dataset_dir :: "string option"
  data_path :: "string option"
  labels_offset :: int
  model_name :: string
  preprocessing_name :: "string option"
  moving_average_decay :: "real option"
  eval_image_size :: "int option"
  quantize :: bool
  use_grayscale :: bool
  checkpoint_exclude_scopes :: "string option"
  trainable_scopes :: "string option"
  ignore_missing_vars :: bool
  visualPath :: string

definition default_flags :: flags where
  "default_flags =
    \<lparr> batch_size = 100, max_num_batches = None, master = [],
      checkpoint_path = None, eval_dir = None, output_path = None,
      num_preprocessing_threads = 4, dataset_name = ''mnist'',
      dataset_split_name = ''test'', dataset_dir = None, data_path = None,
      labels_offset = 0, model_name = ''lenet'', preprocessing_name = None,
      moving_average_decay = None, eval_image_size = None, quantize = False,
      use_grayscale = False, checkpoint_exclude_scopes = None,
      trainable_scopes = None, ignore_missing_vars = False, visualPath = [] \<rparr>"

subsection \<open>The entry-point block (lines 275-285)\<close>

text \<open>
  The block assigns to \<open>FLAGS\<close> and then evaluates \<open>'dog' in FLAGS.data_path\<close>, which
  raises \<open>TypeError\<close> when \<open>data_path\<close> is \<open>None\<close>. The model returns the flags as they
  stand when the block ends or raises, next to the outcome, so that assignments made
  before an exception stay visible.
\<close>

definition entry_block :: "flags \<Rightarrow> (error + unit) \<times> flags" where
  "entry_block F0 =
    (let F1 = (case data_path F0 of
                 Some p \<Rightarrow> F0\<lparr>dataset_dir := Some p\<rparr>
               | None \<Rightarrow> F0);
         F2 = (case output_path F1 of
                 Some p \<Rightarrow> F1\<lparr>eval_dir := Some p\<rparr>
               | None \<Rightarrow> F1)
     in case data_path F2 of
          None \<Rightarrow> (Inl (TypeError ''argument of type 'NoneType' is not iterable''), F2)
        | Some p \<Rightarrow>
            if str_in ''dog'' p
            then (Inr (), F2\<lparr>dataset_name := ''dog-vs-cat'',
                              dataset_split_name := ''validation'',
                              model_name := ''inception_v3''\<rparr>)
            else (Inr (), F2))"

subsection \<open>Collaborators of main\<close>

text \<open>
  The dataset descriptor returned by the dataset factory, with the three attributes
  \<open>main\<close> reads.
\<close>

record dataset =
  num_samples :: int
  num_classes :: int
  labels_to_names :: "(int \<rightharpoonup> string) option"

text \<open>
  The model-builder function returned by the network factory: the arguments it was
  requested with and the \<open>default_image_size\<close> attribute.
\<close>

record network_fn =
  nf_name :: string
  nf_num_classes :: int
  nf_is_training :: bool
  default_image_size :: int

text \<open>
  Tensors of the evaluation graph are the expressions that build them; every
  constructor is one framework call of \<open>main\<close>.
\<close>

datatype tensor =
    Provider_get string
  | Subtract tensor int
  | Preprocessed string bool tensor int int
  | Batch tensor int int int
  | Logits network_fn tensor
  | Argmax tensor int
  | Squeeze tensor

text \<open>
  A streaming metric is built by one function of \<open>slim.metrics\<close> or of the local
  \<open>metrics\<close> module from a prediction (or score) tensor and a label tensor, and is a pair
  of a value tensor and an update operation.
\<close>

datatype metric_module = Slim_metrics | Local_metrics

datatype curve = ROC | PR

datatype metric_fn =
    Streaming_accuracy
  | Streaming_precision
  | Streaming_recall
  | Streaming_recall_at_k int
  | F1_score
  | Streaming_auc curve
  | Streaming_true_positives
  | Streaming_true_negatives
  | Streaming_false_positives
  | Streaming_false_negatives

record metric =
  m_module :: metric_module
  m_fn :: metric_fn
  m_predictions :: tensor
  m_labels :: tensor

datatype metric_op = Value_op metric | Update_op metric

text \<open>\<open>slim.metrics.aggregate_metric_map\<close>: one dictionary of values, one of updates.\<close>

definition aggregate_metric_map ::
  "(string \<times> metric) list \<Rightarrow> (string \<times> metric_op) list \<times> (string \<times> metric_op) list" where
  "aggregate_metric_map names_to_tuples =
    (map (\<lambda>(name, m). (name, Value_op m)) names_to_tuples,
     map (\<lambda>(name, m). (name, Update_op m)) names_to_tuples)"

datatype summary =
    Scalar_summary string metric_op
  | Tensor_summary string metric_op

datatype variables_to_restore =
    Moving_average_variables real
  | All_variables

record evaluate_once_call =
  eo_master :: string
  eo_checkpoint_path :: "string option"
  eo_logdir :: "string option"
  eo_num_evals :: int
  eo_eval_op :: "metric_op list"
  eo_variables_to_restore :: variables_to_restore

text \<open>
  The factories and framework calls whose results \<open>main\<close> depends on; none of them is
  defined in the script. Each may raise.
\<close>

record collaborators =
  get_dataset :: "string \<Rightarrow> string \<Rightarrow> string \<Rightarrow> error + dataset"
  get_network_fn :: "string \<Rightarrow> int \<Rightarrow> bool \<Rightarrow> error + int"
  get_preprocessing :: "string \<Rightarrow> bool \<Rightarrow> bool \<Rightarrow> error + unit"
  IsDirectory :: "string option \<Rightarrow> error + bool"
  latest_checkpoint :: "string \<Rightarrow> string option"
  evaluate_once :: "evaluate_once_call \<Rightarrow> error + unit"

text \<open>What a run of \<open>main\<close> has built when it returns.\<close>

record evaluation =
  ev_dataset :: dataset
  ev_network_fn :: network_fn
  ev_metrics :: "(string \<times> metric) list"
  ev_names_to_values :: "(string \<times> metric_op) list"
  ev_names_to_updates :: "(string \<times> metric_op) list"
  ev_summaries :: "summary list"
  ev_num_batches :: int
  ev_call :: evaluate_once_call

subsection \<open>The metric definitions (lines 199-221)\<close>

definition metric_of :: "metric_module \<Rightarrow> metric_fn \<Rightarrow> tensor \<Rightarrow> tensor \<Rightarrow> metric" where
  "metric_of md f p l = \<lparr> m_module = md, m_fn = f, m_predictions = p, m_labels = l \<rparr>"

definition define_metrics :: "dataset \<Rightarrow> tensor \<Rightarrow> tensor \<Rightarrow> tensor \<Rightarrow> (string \<times> metric) list" where
  "define_metrics ds logits predictions labels =
    (if num_classes ds > 2 then
       [(''Accuracy'', metric_of Slim_metrics Streaming_accuracy predictions labels),
        (''Precision'', metric_of Slim_metrics Streaming_precision predictions labels),
        (''Recall'', metric_of Slim_metrics Streaming_recall predictions labels),
        (''Recall_5'', metric_of Slim_metrics (Streaming_recall_at_k 5) logits labels)]
     else
       [(''Accuracy'', metric_of Local_metrics Streaming_accuracy predictions labels),
        (''Precision'', metric_of Local_metrics Streaming_precision predictions labels),
        (''Recall'', metric_of Local_metrics Streaming_recall predictions labels),
        (''F1_score'', metric_of Local_metrics F1_score predictions labels),
        (''Auc_ROC'', metric_of Local_metrics (Streaming_auc ROC) predictions labels),
        (''Auc_PR'', metric_of Local_metrics (Streaming_auc PR) predictions labels),
        (''TP'', metric_of Local_metrics Streaming_true_positives predictions labels),
        (''TN'', metric_of Local_metrics Streaming_true_negatives predictions labels),
        (''FP'', metric_of Local_metrics Streaming_false_positives predictions labels),
        (''FN'', metric_of Local_metrics Streaming_false_negatives predictions labels)])"

subsection \<open>The summaries (lines 223-250)\<close>

text \<open>\<open>labels_to_names[k]\<close>: \<open>None\<close> is not subscriptable, a missing key raises.\<close>

definition class_name :: "(int \<rightharpoonup> string) option \<Rightarrow> int \<Rightarrow> error + string" where
  "class_name l2n k =
    (case l2n of
       None \<Rightarrow> Inl (TypeError '''NoneType' object is not subscriptable'')
     | Some m \<Rightarrow> (case m k of None \<Rightarrow> Inl (KeyError k) | Some s \<Rightarrow> Inr s))"

text \<open>\<open>name + ': Real-%s, Pred-%s' % (labels_to_names[r], labels_to_names[p])\<close>\<close>

definition real_pred :: "(int \<rightharpoonup> string) option \<Rightarrow> string \<Rightarrow> int \<Rightarrow> int \<Rightarrow> error + string" where
  "real_pred l2n name r p =
    (case class_name l2n r of
       Inl e \<Rightarrow> Inl e
     | Inr a \<Rightarrow>
        (case class_name l2n p of
           Inl e \<Rightarrow> Inl e
         | Inr b \<Rightarrow> Inr (name @ '': Real-'' @ a @ '', Pred-'' @ b)))"

text \<open>The four consecutive \<open>if name == ...\<close> statements of the binary branch.\<close>

definition annotate :: "(int \<rightharpoonup> string) option \<Rightarrow> string \<Rightarrow> error + string" where
  "annotate l2n name0 =
    (case (if name0 = ''TP'' then real_pred l2n name0 1 1 else Inr name0) of
       Inl e \<Rightarrow> Inl e
     | Inr name1 \<Rightarrow>
    (case (if name1 = ''FN'' then real_pred l2n name1 1 0 else Inr name1) of
       Inl e \<Rightarrow> Inl e
     | Inr name2 \<Rightarrow>
    (case (if name2 = ''FP'' then real_pred l2n name2 0 1 else Inr name2) of
       Inl e \<Rightarrow> Inl e
     | Inr name3 \<Rightarrow>
       (if name3 = ''TN'' then real_pred l2n name3 0 0 else Inr name3))))"

fun summaries_multi :: "(string \<times> metric_op) list \<Rightarrow> summary list" where
  "summaries_multi [] = []"
| "summaries_multi ((name, v) # rest) =
     Scalar_summary (''evaluation_results/'' @ name) v # summaries_multi rest"

fun summaries_binary ::
  "(int \<rightharpoonup> string) option \<Rightarrow> (string \<times> metric_op) list \<Rightarrow> error + summary list" where
  "summaries_binary l2n [] = Inr []"
| "summaries_binary l2n ((name, v) # rest) =
     (case (if name = ''ROC_curve'' \<or> name = ''PR_curve''
            then Inr (Tensor_summary (''evaluation_results/'' @ name) v)
            else (case annotate l2n name of
                    Inl e \<Rightarrow> Inl e
                  | Inr name' \<Rightarrow> Inr (Scalar_summary (''evaluation_results/'' @ name') v))) of
        Inl e \<Rightarrow> Inl e
      | Inr s \<Rightarrow>
         (case summaries_binary l2n rest of
            Inl e \<Rightarrow> Inl e
          | Inr ss \<Rightarrow> Inr (s # ss)))"

definition print_summaries :: "dataset \<Rightarrow> (string \<times> metric_op) list \<Rightarrow> error + summary list" where
  "print_summaries ds names_to_values =
    (if num_classes ds > 2 then Inr (summaries_multi names_to_values)
     else summaries_binary (labels_to_names ds) names_to_values)"

subsection \<open>The number of batches (lines 253-257)\<close>

text \<open>
  Python's floats are IEEE 754 doubles: 53 significant bits, exponents from \<open>-1022\<close> to
  \<open>1023\<close>, results rounded to the nearest double, a tie to the one whose last bit is
  zero. \<open>round_half_even y\<close> is the integer nearest to \<open>y\<close>, \<open>double_ulp x\<close> the
  distance between neighbouring doubles at the magnitude of \<open>x\<close>, and \<open>round_double x\<close>
  the nearest multiple of it.
\<close>

definition round_half_even :: "real \<Rightarrow> int" where
  "round_half_even y =
    (let f = \<lfloor>y\<rfloor>
     in if y - of_int f < 1 / 2 then f
        else if 1 / 2 < y - of_int f then f + 1
        else if even f then f else f + 1)"

definition double_ulp :: "real \<Rightarrow> real" where
  "double_ulp x = 2 powi (max \<lfloor>log 2 \<bar>x\<bar>\<rfloor> (- 1022) - 52)"

definition round_double :: "real \<Rightarrow> real" where
  "round_double x =
    (if x = 0 then 0 else of_int (round_half_even (x / double_ulp x)) * double_ulp x)"

text \<open>
  The conversion of an integer to a float, \<open>float(n)\<close> or the one a division of an
  integer by a float makes: the nearest double, and \<open>OverflowError\<close> when that is beyond
  the largest double.
\<close>

definition float_of_int :: "int \<Rightarrow> error + real" where
  "float_of_int n =
    (if 2 ^ 1024 \<le> \<bar>round_double (of_int n)\<bar>
     then Inl (OverflowError ''int too large to convert to float'')
     else Inr (round_double (of_int n)))"

text \<open>
  \<open>math.ceil(num_samples / float(batch_size))\<close>: \<open>batch_size\<close> is converted, then
  \<open>num_samples\<close>, then the float division raises on a zero divisor and rounds the
  quotient, and \<open>math.ceil\<close> gives the least integer not below that double.
\<close>

definition ceil_div :: "int \<Rightarrow> int \<Rightarrow> error + int" where
  "ceil_div n b =
    (case float_of_int b of
       Inl e \<Rightarrow> Inl e
     | Inr fb \<Rightarrow>
        (case float_of_int n of
           Inl e \<Rightarrow> Inl e
         | Inr fn \<Rightarrow>
            if fb = 0 then Inl (ZeroDivisionError ''float division by zero'')
            else Inr \<lceil>round_double (fn / fb)\<rceil>))"

definition compute_num_batches :: "flags \<Rightarrow> dataset \<Rightarrow> error + int" where
  "compute_num_batches F ds =
    (case max_num_batches F of
       Some m \<Rightarrow> if m \<noteq> 0 then Inr m else ceil_div (num_samples ds) (batch_size F)
     | None \<Rightarrow> ceil_div (num_samples ds) (batch_size F))"

subsection \<open>main (lines 125-272)\<close>

text \<open>
  \<open>check_dataset_dir\<close> is the first statement of \<open>main\<close> (lines 126-127), \<open>main_body\<close>
  everything after it (lines 129-272) for a dataset directory \<open>dir\<close>, and \<open>main\<close> the
  check followed by the body. The quantization rewrite of line 183 returns nothing that
  \<open>main\<close> reads and is left out.
\<close>

definition main_body :: "collaborators \<Rightarrow> flags \<Rightarrow> string \<Rightarrow> error + evaluation" where
  "main_body env F dir =
    (case get_dataset env (dataset_name F) (dataset_split_name F) dir of
       Inl e \<Rightarrow> Inl e
     | Inr ds \<Rightarrow>
    (case get_network_fn env (model_name F) (num_classes ds - labels_offset F) False of
       Inl e \<Rightarrow> Inl e
     | Inr default_size \<Rightarrow>
    (let network = \<lparr> nf_name = model_name F,
                     nf_num_classes = num_classes ds - labels_offset F,
                     nf_is_training = False,
                     default_image_size = default_size \<rparr>;
         image0 = Provider_get ''image'';
         label0 = Provider_get ''label'';
         label1 = Subtract label0 (labels_offset F);
         prep_name = or_str (preprocessing_name F) (model_name F)
     in
    (case get_preprocessing env prep_name False (use_grayscale F) of
       Inl e \<Rightarrow> Inl e
     | Inr _ \<Rightarrow>
    (let image_size = or_int (eval_image_size F) (default_image_size network);
         image1 = Preprocessed prep_name (use_grayscale F) image0 image_size image_size;
         images = Batch image1 (batch_size F) (num_preprocessing_threads F) (5 * batch_size F);
         labels0 = Batch label1 (batch_size F) (num_preprocessing_threads F) (5 * batch_size F);
         logits = Logits network images;
         to_restore = (case moving_average_decay F of
                         None \<Rightarrow> All_variables
                       | Some d \<Rightarrow> if d \<noteq> 0 then Moving_average_variables d else All_variables);
         predictions = Argmax logits 1;
         labels = Squeeze labels0;
         metrics = define_metrics ds logits predictions labels;
         names_to_values = fst (aggregate_metric_map metrics);
         names_to_updates = snd (aggregate_metric_map metrics)
     in
    (case print_summaries ds names_to_values of
       Inl e \<Rightarrow> Inl e
     | Inr summaries \<Rightarrow>
    (case compute_num_batches F ds of
       Inl e \<Rightarrow> Inl e
     | Inr num_batches \<Rightarrow>
    (case IsDirectory env (checkpoint_path F) of
       Inl e \<Rightarrow> Inl e
     | Inr is_dir \<Rightarrow>
    (let ckpt = (if is_dir
                 then (case checkpoint_path F of
                         None \<Rightarrow> None
                       | Some p \<Rightarrow> latest_checkpoint env p)
                 else checkpoint_path F);
         call = \<lparr> eo_master = master F,
                  eo_checkpoint_path = ckpt,
                  eo_logdir = eval_dir F,
                  eo_num_evals = num_batches,
                  eo_eval_op = map snd names_to_updates,
                  eo_variables_to_restore = to_restore \<rparr>
     in
    (case evaluate_once env call of
       Inl e \<Rightarrow> Inl e
     | Inr _ \<Rightarrow>
         Inr \<lparr> ev_dataset = ds,
               ev_network_fn = network,
               ev_metrics = metrics,
               ev_names_to_values = names_to_values,
               ev_names_to_updates = names_to_updates,
               ev_summaries = summaries,
               ev_num_batches = num_batches,
               ev_call = call \<rparr>))))))))))"

definition check_dataset_dir :: "flags \<Rightarrow> error + string" where
  "check_dataset_dir F =
    (case dataset_dir F of
       None \<Rightarrow> Inl (ValueError ''You must supply the dataset directory with --dataset_dir'')
     | Some dir \<Rightarrow>
         if dir = []
         then Inl (ValueError ''You must supply the dataset directory with --dataset_dir'')
         else Inr dir)"

definition main :: "collaborators \<Rightarrow> flags \<Rightarrow> error + evaluation" where
  "main env F =
    (case check_dataset_dir F of
       Inl e \<Rightarrow> Inl e
     | Inr dir \<Rightarrow> main_body env F dir)"

text \<open>The script: the entry-point block, then \<open>tf.app.run()\<close>, which calls \<open>main\<close>.\<close>

definition script :: "collaborators \<Rightarrow> flags \<Rightarrow> error + evaluation" where
  "script env F =
    (case entry_block F of
       (Inl e, _) \<Rightarrow> Inl e
     | (Inr _, F') \<Rightarrow> main env F')"

subsection \<open>Values of a label tensor\<close>

text \<open>
  The values a tensor derived from the provider's label holds, sample by sample, when
  the provider reads the labels \<open>raw\<close>: subtraction of a scalar acts on every value,
  batching and squeezing change the shape only. Other tensors hold no labels.
\<close>

fun label_values :: "int list \<Rightarrow> tensor \<Rightarrow> int list option" where
  "label_values raw (Provider_get k) = (if k = ''label'' then Some raw else None)"
| "label_values raw (Subtract t c) = map_option (map (\<lambda>v. v - c)) (label_values raw t)"
| "label_values raw (Batch t _ _ _) = label_values raw t"
| "label_values raw (Squeeze t) = label_values raw t"
| "label_values raw (Preprocessed _ _ _ _ _) = None"
| "label_values raw (Logits _ _) = None"
| "label_values raw (Argmax _ _) = None"


section \<open>The export pipeline (slim_exporter.py)\<close>

text \<open>
  A name of the source that starts with an underscore is written with the prefix
  \<open>priv_\<close>: \<open>_write_saved_model\<close> is \<open>priv_write_saved_model\<close>, next to the
  \<open>write_saved_model\<close> the source also defines.
\<close>

subsection \<open>Tensors, graphs and files\<close>

datatype dtype = Uint8 | String_dtype | Float32 | Int64

text \<open>
  A tensor of the inference graph is the expression that builds it, one constructor for
  each framework operation the exporter calls. A shape lists its dimensions, \<open>None\<close> for
  an unknown one. \<open>Model_logits images names\<close> is what a model computes from \<open>images\<close> and
  the variables \<open>names\<close>; \<open>Tf_variable\<close> and \<open>Tf_const\<close> are the node of a variable and
  the node of a constant that holds a folded-in value; \<open>Imported_copy t\<close> is the node that
  importing a graph definition makes of its node \<open>t\<close>.
\<close>

datatype gtensor =
    Tf_placeholder dtype "int option list" string
  | Tf_map_fn_decode_image gtensor
  | Tf_to_float gtensor
  | Tf_convert_image_dtype gtensor dtype
  | Tf_rgb_to_grayscale gtensor
  | Tf_central_crop gtensor real
  | Tf_resize_bilinear gtensor int int
  | Tf_subtract gtensor real
  | Tf_multiply gtensor real
  | Model_logits gtensor "string list"
  | Tf_softmax gtensor
  | Tf_argmax gtensor int
  | Tf_identity gtensor string
  | Tf_variable string
  | Tf_const string
  | Imported_copy gtensor

fun dtype_of :: "gtensor \<Rightarrow> dtype" where
  "dtype_of (Tf_placeholder d _ _) = d"
| "dtype_of (Tf_map_fn_decode_image _) = Uint8"
| "dtype_of (Tf_to_float _) = Float32"
| "dtype_of (Tf_convert_image_dtype _ d) = d"
| "dtype_of (Tf_rgb_to_grayscale t) = dtype_of t"
| "dtype_of (Tf_central_crop t _) = dtype_of t"
| "dtype_of (Tf_resize_bilinear _ _ _) = Float32"
| "dtype_of (Tf_subtract t _) = dtype_of t"
| "dtype_of (Tf_multiply t _) = dtype_of t"
| "dtype_of (Model_logits _ _) = Float32"
| "dtype_of (Tf_softmax t) = dtype_of t"
| "dtype_of (Tf_argmax _ _) = Int64"
| "dtype_of (Tf_identity t _) = dtype_of t"
| "dtype_of (Tf_variable _) = Float32"
| "dtype_of (Tf_const _) = Float32"
| "dtype_of (Imported_copy t) = dtype_of t"

text \<open>The nodes a node depends on, itself included.\<close>

fun subtensors :: "gtensor \<Rightarrow> gtensor list" where
  "subtensors (Tf_placeholder d sh n) = [Tf_placeholder d sh n]"
| "subtensors (Tf_map_fn_decode_image t) = Tf_map_fn_decode_image t # subtensors t"
| "subtensors (Tf_to_float t) = Tf_to_float t # subtensors t"
| "subtensors (Tf_convert_image_dtype t d) = Tf_convert_image_dtype t d # subtensors t"
| "subtensors (Tf_rgb_to_grayscale t) = Tf_rgb_to_grayscale t # subtensors t"
| "subtensors (Tf_central_crop t f) = Tf_central_crop t f # subtensors t"
| "subtensors (Tf_resize_bilinear t h w) = Tf_resize_bilinear t h w # subtensors t"
| "subtensors (Tf_subtract t c) = Tf_subtract t c # subtensors t"
| "subtensors (Tf_multiply t c) = Tf_multiply t c # subtensors t"
| "subtensors (Model_logits t names) = Model_logits t names # subtensors t"
| "subtensors (Tf_softmax t) = Tf_softmax t # subtensors t"
| "subtensors (Tf_argmax t a) = Tf_argmax t a # subtensors t"
| "subtensors (Tf_identity t n) = Tf_identity t n # subtensors t"
| "subtensors (Tf_variable n) = [Tf_variable n]"
| "subtensors (Tf_const n) = [Tf_const n]"
| "subtensors (Imported_copy t) = map Imported_copy (subtensors t)"

text \<open>
  The names of the variables and constants of a graph that a node depends on. An imported
  copy depends on the copies of the variables, which are other nodes.
\<close>

fun reads :: "gtensor \<Rightarrow> string list" where
  "reads (Tf_placeholder _ _ _) = []"
| "reads (Tf_map_fn_decode_image t) = reads t"
| "reads (Tf_to_float t) = reads t"
| "reads (Tf_convert_image_dtype t _) = reads t"
| "reads (Tf_rgb_to_grayscale t) = reads t"
| "reads (Tf_central_crop t _) = reads t"
| "reads (Tf_resize_bilinear t _ _) = reads t"
| "reads (Tf_subtract t _) = reads t"
| "reads (Tf_multiply t _) = reads t"
| "reads (Model_logits t names) = names @ reads t"
| "reads (Tf_softmax t) = reads t"
| "reads (Tf_argmax t _) = reads t"
| "reads (Tf_identity t _) = reads t"
| "reads (Tf_variable n) = [n]"
| "reads (Tf_const n) = [n]"
| "reads (Imported_copy _) = []"

text \<open>
  The name a node was created with, for the nodes whose name the caller chooses. The
  framework names every other node itself, and renames a node whose name is taken, so
  that in a graph a name belongs to the first node created with it.
\<close>

fun node_name :: "gtensor \<Rightarrow> string option" where
  "node_name (Tf_placeholder _ _ n) = Some n"
| "node_name (Tf_identity _ n) = Some n"
| "node_name (Tf_variable n) = Some n"
| "node_name (Tf_const n) = Some n"
| "node_name _ = None"

record variable =
  v_name :: string
  v_trainable :: bool

text \<open>
  A graph (and its serialised graph definition): the nodes of the operations, in the
  order they were created, the variables (its collection of variables, from which a saver
  takes what it saves), the constants that hold folded-in values, and the other
  collections. Freezing makes constants of variables; a graph definition carries no
  collection.
\<close>

record 'v graph =
  g_nodes :: "gtensor list"
  g_variables :: "variable list"
  g_constants :: "(string \<times> 'v) list"
  g_collections :: "(string \<times> gtensor) list"

datatype write_version = V1 | V2

record saver_def =
  sd_var_list :: "(string \<times> string) list"
  sd_write_version :: write_version

record signature_def =
  sig_inputs :: "(string \<times> gtensor) list"
  sig_outputs :: "(string \<times> gtensor) list"
  sig_method_name :: string

record 'v saved_model =
  sm_graph :: "'v graph"
  sm_variables :: "string \<rightharpoonup> 'v"
  sm_tags :: "string list"
  sm_signature_def_map :: "(string \<times> signature_def) list"

text \<open>The framework calls that read or write files, in the order they are made.\<close>

datatype call =
    MakeDirs string
  | Restore string
  | Save string
  | Freeze string string string
  | Write_file string
  | Builder_save string

text \<open>
  The state the exporter works on: the process-wide default graph, the file system (the
  directories, the checkpoints by path prefix, the graph files and the servable
  bundles), the names \<open>tempfile\<close> hands out, and the log of calls. A checkpoint maps a
  tensor name to its value; the values are of any type \<open>'v\<close>, the exporter never looks
  into them. \<open>op_raises\<close> is the framework's check of an operation's arguments (the rank
  of a shape, say): the exception that building the node raises, if any.
\<close>

record 'v world =
  default_graph :: "'v graph"
  op_raises :: "gtensor \<Rightarrow> error option"
  directories :: "string list"
  checkpoints :: "string \<rightharpoonup> (write_version \<times> (string \<rightharpoonup> 'v))"
  graph_files :: "string \<rightharpoonup> 'v graph"
  saved_models :: "string \<rightharpoonup> 'v saved_model"
  temp_names :: "nat \<Rightarrow> string"
  temp_next :: nat
  calls :: "call list"

text \<open>
  The model-builder callable: called on the images, it builds the network in the default
  graph, where it creates its variables, and returns the logits (next to the end points,
  which the exporter drops), or raises. \<open>graph_hook_fn\<close> is a callable without arguments
  that works on the default graph.
\<close>

type_synonym 'v slim_model = "gtensor \<Rightarrow> 'v graph \<Rightarrow> (error + gtensor) \<times> 'v graph"

type_synonym 'v graph_hook = "'v graph \<Rightarrow> (error + unit) \<times> 'v graph"

subsection \<open>The framework operations the exporter calls\<close>

text \<open>
  These are not defined in the repository; each is modelled by the part of its
  documented behaviour the exporter relies on.

  \<open>os.path.join\<close> with a relative second part, \<open>os.path.isfile\<close> (a version-1
  checkpoint is one file at its path, a version-2 checkpoint is a set of files next to its
  prefix), and the two \<open>tempfile\<close> calls.
\<close>

definition os_path_join :: "string \<Rightarrow> string \<Rightarrow> string" where
  "os_path_join a b =
    (if a = [] \<or> last a = CHR ''/'' then a @ b else a @ ''/'' @ b)"

definition os_path_isfile :: "'v world \<Rightarrow> string \<Rightarrow> bool" where
  "os_path_isfile w p =
    ((case checkpoints w p of Some (V1, _) \<Rightarrow> True | _ \<Rightarrow> False) \<or>
     (case graph_files w p of Some _ \<Rightarrow> True | None \<Rightarrow> False))"

definition named_temporary_file_name :: "'v world \<Rightarrow> string \<times> 'v world" where
  "named_temporary_file_name w =
    (temp_names w (temp_next w), w\<lparr>temp_next := Suc (temp_next w)\<rparr>)"

definition mkdtemp :: "'v world \<Rightarrow> string \<times> 'v world" where
  "mkdtemp w =
    (temp_names w (temp_next w),
     w\<lparr>temp_next := Suc (temp_next w),
       directories := directories w @ [temp_names w (temp_next w)]\<rparr>)"

definition make_dirs :: "string \<Rightarrow> 'v world \<Rightarrow> 'v world" where
  "make_dirs d w = w\<lparr>directories := directories w @ [d], calls := calls w @ [MakeDirs d]\<rparr>"

text \<open>\<open>','.join(names)\<close> and \<open>names.split(',')\<close>\<close>

fun comma_join :: "string list \<Rightarrow> string" where
  "comma_join [] = []"
| "comma_join [x] = x"
| "comma_join (x # y # rest) = x @ '','' @ comma_join (y # rest)"

fun comma_split :: "string \<Rightarrow> string list" where
  "comma_split [] = [[]]"
| "comma_split (c # s) =
    (if c = CHR '','' then [] # comma_split s
     else (case comma_split s of
             [] \<Rightarrow> [[c]]
           | p # ps \<Rightarrow> (c # p) # ps))"

text \<open>
  A framework call that builds a node: it raises, and leaves the graph as it is, or adds
  the node to the default graph and returns it.
\<close>

definition tf_op :: "gtensor \<Rightarrow> 'v world \<Rightarrow> (error + gtensor) \<times> 'v world" where
  "tf_op t w =
    (case op_raises w t of
       Some e \<Rightarrow> (Inl e, w)
     | None \<Rightarrow>
         (Inr t, w\<lparr>default_graph :=
                    (default_graph w)\<lparr>g_nodes := g_nodes (default_graph w) @ [t]\<rparr>\<rparr>))"

text \<open>
  \<open>graph.as_graph_def()\<close>: the nodes of the graph, those of its variables and constants
  among them, without the collections. \<open>tf.import_graph_def(graph_def, name='')\<close> into a
  graph adds a copy of every node of the definition; the exporter's freezing step
  imports the default graph's own definition into the default graph, where every name
  is taken, so that every copy gets a new name. The copies of variables are nodes only:
  the graph's collection of variables is as before.
\<close>

definition as_graph_def :: "'v graph \<Rightarrow> 'v graph" where
  "as_graph_def g = g\<lparr>g_collections := []\<rparr>"

definition graph_def_nodes :: "'v graph \<Rightarrow> gtensor list" where
  "graph_def_nodes graph_def =
    g_nodes graph_def @ map (\<lambda>v. Tf_variable (v_name v)) (g_variables graph_def) @
    map (\<lambda>c. Tf_const (fst c)) (g_constants graph_def)"

definition import_graph_def :: "'v graph \<Rightarrow> 'v graph \<Rightarrow> 'v graph" where
  "import_graph_def graph_def g =
    g\<lparr>g_nodes := g_nodes g @ map Imported_copy (graph_def_nodes graph_def)\<rparr>"

text \<open>
  \<open>ExponentialMovingAverage.variables_to_restore()\<close>: a trainable variable is restored
  from the checkpoint entry of its shadow variable, any other variable from its own
  entry. The result pairs the checkpoint key with the variable's name.
\<close>

definition average_name :: "string \<Rightarrow> string" where
  "average_name n = n @ ''/ExponentialMovingAverage''"

definition ema_variables_to_restore :: "variable list \<Rightarrow> (string \<times> string) list" where
  "ema_variables_to_restore vars =
    map (\<lambda>v. (if v_trainable v then average_name (v_name v) else v_name v, v_name v)) vars"

text \<open>
  \<open>tf.train.Saver(var_list)\<close> saves and restores each variable of the list under its
  key; it refuses an empty list. \<open>tf.train.Saver()\<close> takes the variables of the default
  graph, each under its own name.
\<close>

definition new_saver :: "(string \<times> string) list \<Rightarrow> write_version \<Rightarrow> error + saver_def" where
  "new_saver var_list ver =
    (if var_list = [] then Inl (ValueError ''No variables to save'')
     else Inr \<lparr> sd_var_list = var_list, sd_write_version = ver \<rparr>)"

definition saveable_variables :: "'v graph \<Rightarrow> (string \<times> string) list" where
  "saveable_variables g = map (\<lambda>v. (v_name v, v_name v)) (g_variables g)"

text \<open>
  \<open>saver.restore(sess, path)\<close>: the session's value of each variable is the checkpoint's
  value under the variable's key. It fails when there is no checkpoint at the path or a
  key is missing from it. A session is a map from variable names to values.
\<close>

definition restore_session ::
  "(string \<times> string) list \<Rightarrow> (string \<rightharpoonup> 'v) \<Rightarrow> (string \<rightharpoonup> 'v)" where
  "restore_session var_list ckpt =
    (\<lambda>var. case map_of (map (\<lambda>(key, v). (v, key)) var_list) var of
             None \<Rightarrow> None
           | Some key \<Rightarrow> ckpt key)"

definition saver_restore ::
  "(string \<times> string) list \<Rightarrow> string \<Rightarrow> 'v world \<Rightarrow> (error + (string \<rightharpoonup> 'v)) \<times> 'v world" where
  "saver_restore var_list path w =
    (let w1 = w\<lparr>calls := calls w @ [Restore path]\<rparr>
     in case checkpoints w path of
          None \<Rightarrow> (Inl (FrameworkError ''checkpoint not found''), w1)
        | Some (ver, ckpt) \<Rightarrow>
            if list_all (\<lambda>(key, v). ckpt key \<noteq> None) var_list
            then (Inr (restore_session var_list ckpt), w1)
            else (Inl (FrameworkError ''key not found in checkpoint''), w1))"

text \<open>
  \<open>saver.save(sess, path)\<close>, for a saver that keeps each variable under its own name
  (the exporter saves with no other): writes a checkpoint that holds, under each
  variable's name, the session's value. It fails on a variable that has no value in the
  session.
\<close>

definition saver_save ::
  "saver_def \<Rightarrow> (string \<rightharpoonup> 'v) \<Rightarrow> string \<Rightarrow> 'v world \<Rightarrow> (error + unit) \<times> 'v world" where
  "saver_save sd sess path w =
    (let w1 = w\<lparr>calls := calls w @ [Save path]\<rparr>;
         names = map snd (sd_var_list sd)
     in if list_all (\<lambda>n. sess n \<noteq> None) names
        then (Inr (),
              w1\<lparr>checkpoints := (checkpoints w1)
                    (path \<mapsto> (sd_write_version sd,
                               \<lambda>n. if n \<in> set names then sess n else None))\<rparr>)
        else (Inl (FrameworkError ''attempting to use uninitialized value''), w1))"

text \<open>
  \<open>graph_util.convert_variables_to_constants(sess, graph_def, names)\<close>: looks the
  output nodes up by name, keeps the nodes they depend on, and replaces each variable
  among these by a constant that holds the variable's value in the session. It fails for
  a name that is not in the graph and for a variable without a value.
\<close>

definition convert_variables_to_constants ::
  "(string \<rightharpoonup> 'v) \<Rightarrow> 'v graph \<Rightarrow> string list \<Rightarrow> error + 'v graph" where
  "convert_variables_to_constants sess input_graph_def output_node_names =
    (case those (map (\<lambda>n. find (\<lambda>t. node_name t = Some n) (graph_def_nodes input_graph_def))
                     output_node_names) of
       None \<Rightarrow> Inl (FrameworkError ''output node is not in graph'')
     | Some output_nodes \<Rightarrow>
        (let needed = concat (map subtensors output_nodes);
             read = concat (map reads output_nodes);
             variables = filter (\<lambda>v. v_name v \<in> set read) (g_variables input_graph_def)
         in if \<not> list_all (\<lambda>v. sess (v_name v) \<noteq> None) variables
            then Inl (FrameworkError ''attempting to use uninitialized value'')
            else Inr \<lparr> g_nodes = filter (\<lambda>t. t \<in> set needed) (g_nodes input_graph_def),
                       g_variables = [],
                       g_constants =
                         filter (\<lambda>c. fst c \<in> set read) (g_constants input_graph_def) @
                         concat (map (\<lambda>v. case sess (v_name v) of
                                             None \<Rightarrow> []
                                           | Some x \<Rightarrow> [(v_name v, x)])
                                     variables),
                       g_collections = [] \<rparr>))"

text \<open>
  \<open>freeze_graph_with_def_protos\<close>: refuses a missing checkpoint and an empty string of
  output node names, imports the graph definition into the default graph, restores the
  saver's variables from the input checkpoint, converts the variables that the output
  nodes (\<open>output_node_names.replace(' ', '').split(',')\<close>) depend on into constants, and
  returns the resulting graph definition, written to \<open>output_graph\<close> as well.
\<close>

definition freeze_graph_with_def_protos ::
  "'v graph \<Rightarrow> saver_def \<Rightarrow> string \<Rightarrow> string \<Rightarrow> string \<Rightarrow> 'v world \<Rightarrow>
     (error + 'v graph) \<times> 'v world" where
  "freeze_graph_with_def_protos input_graph_def input_saver_def input_checkpoint
       output_node_names output_graph w =
    (let w1 = w\<lparr>calls := calls w @ [Freeze input_checkpoint output_node_names output_graph]\<rparr>
     in case checkpoints w input_checkpoint of
          None \<Rightarrow> (Inl (FrameworkError ''input checkpoint does not exist''), w1)
        | Some (ver, ckpt) \<Rightarrow>
            if output_node_names = []
            then (Inl (FrameworkError ''no output node names''), w1)
            else
              (let w2 = w1\<lparr>default_graph := import_graph_def input_graph_def (default_graph w1)\<rparr>
               in if \<not> list_all (\<lambda>(key, v). ckpt key \<noteq> None) (sd_var_list input_saver_def)
                  then (Inl (FrameworkError ''key not found in checkpoint''), w2)
                  else
                    (case convert_variables_to_constants
                            (restore_session (sd_var_list input_saver_def) ckpt) input_graph_def
                            (comma_split (filter (\<lambda>c. c \<noteq> CHR '' '') output_node_names)) of
                       Inl e \<Rightarrow> (Inl e, w2)
                     | Inr output_graph_def \<Rightarrow>
                         (Inr output_graph_def,
                          if output_graph = [] then w2
                          else w2\<lparr>graph_files :=
                                    (graph_files w2)(output_graph \<mapsto> output_graph_def)\<rparr>))))"

text \<open>Constants of \<open>tf.saved_model\<close>.\<close>

definition PREDICT_METHOD_NAME :: string where
  "PREDICT_METHOD_NAME = ''tensorflow/serving/predict''"

definition DEFAULT_SERVING_SIGNATURE_DEF_KEY :: string where
  "DEFAULT_SERVING_SIGNATURE_DEF_KEY = ''serving_default''"

definition SERVING :: string where
  "SERVING = ''serve''"

text \<open>
  \<open>SavedModelBuilder(path)\<close>, \<open>add_meta_graph_and_variables\<close> and \<open>save\<close>: the bundle holds
  the graph the builder was called in, the session's variable values, the tags and the
  signatures. The builder refuses a path at which a bundle exists.
\<close>

definition builder_save ::
  "string \<Rightarrow> 'v graph \<Rightarrow> (string \<rightharpoonup> 'v) \<Rightarrow> string list \<Rightarrow> (string \<times> signature_def) list \<Rightarrow>
     'v world \<Rightarrow> (error + unit) \<times> 'v world" where
  "builder_save path g sess tags sigs w =
    (let w1 = w\<lparr>calls := calls w @ [Builder_save path]\<rparr>
     in case saved_models w path of
          Some _ \<Rightarrow> (Inl (FrameworkError ''export directory already exists''), w1)
        | None \<Rightarrow>
            (Inr (),
             w1\<lparr>saved_models := (saved_models w1)
                   (path \<mapsto> \<lparr> sm_graph = g,
                              sm_variables = (\<lambda>n. if n \<in> set (map v_name (g_variables g))
                                                   then sess n else None),
                              sm_tags = tags,
                              sm_signature_def_map = sigs \<rparr>)\<rparr>))"

subsection \<open>The functions of the exporter\<close>

text \<open>
  \<open>model_preprocess\<close> (lines 21-65). \<open>height\<close>, \<open>width\<close> and \<open>central_fraction\<close> are
  tested for truth, which for a number is being non-zero.
\<close>

definition model_preprocess ::
  "gtensor \<Rightarrow> int \<Rightarrow> int \<Rightarrow> real \<Rightarrow> bool \<Rightarrow> bool \<Rightarrow> 'v world \<Rightarrow>
     (error + gtensor) \<times> 'v world" where
  "model_preprocess image0 height width central_fraction central_crop use_gray w =
    (case (if dtype_of image0 \<noteq> Float32
           then tf_op (Tf_convert_image_dtype image0 Float32) w
           else (Inr image0, w)) of
       (Inl e, w1) \<Rightarrow> (Inl e, w1)
     | (Inr image1, w1) \<Rightarrow>
    (case (if use_gray then tf_op (Tf_rgb_to_grayscale image1) w1 else (Inr image1, w1)) of
       (Inl e, w2) \<Rightarrow> (Inl e, w2)
     | (Inr image2, w2) \<Rightarrow>
    (case (if central_crop \<and> central_fraction \<noteq> 0
           then tf_op (Tf_central_crop image2 central_fraction) w2
           else (Inr image2, w2)) of
       (Inl e, w3) \<Rightarrow> (Inl e, w3)
     | (Inr image3, w3) \<Rightarrow>
        if height \<noteq> 0 \<and> width \<noteq> 0
        then (case tf_op (Tf_resize_bilinear image3 height width) w3 of
                (Inl e, w4) \<Rightarrow> (Inl e, w4)
              | (Inr image4, w4) \<Rightarrow>
             (case tf_op (Tf_subtract image4 0.5) w4 of
                (Inl e, w5) \<Rightarrow> (Inl e, w5)
              | (Inr image5, w5) \<Rightarrow> tf_op (Tf_multiply image5 2.0) w5))
        else (Inr image3, w3))))"

text \<open>\<open>model_postprocess\<close> (lines 68-82).\<close>

definition model_postprocess ::
  "'v slim_model \<Rightarrow> gtensor \<Rightarrow> 'v world \<Rightarrow> (error + (string \<times> gtensor) list) \<times> 'v world" where
  "model_postprocess model images w =
    (case model images (default_graph w) of
       (Inl e, g) \<Rightarrow> (Inl e, w\<lparr>default_graph := g\<rparr>)
     | (Inr logits0, g) \<Rightarrow>
    (case tf_op (Tf_softmax logits0) (w\<lparr>default_graph := g\<rparr>) of
       (Inl e, w1) \<Rightarrow> (Inl e, w1)
     | (Inr logits, w1) \<Rightarrow>
    (case tf_op (Tf_argmax logits 1) w1 of
       (Inl e, w2) \<Rightarrow> (Inl e, w2)
     | (Inr classes, w2) \<Rightarrow> (Inr [(''logits'', logits), (''classes'', classes)], w2))))"

text \<open>\<open>replace_variable_values_with_moving_averages\<close> (lines 85-107).\<close>

definition replace_variable_values_with_moving_averages ::
  "'v graph \<Rightarrow> string \<Rightarrow> string \<Rightarrow> 'v world \<Rightarrow> (error + unit) \<times> 'v world" where
  "replace_variable_values_with_moving_averages graph current_checkpoint_file
       new_checkpoint_file w =
    (case new_saver (ema_variables_to_restore (g_variables graph)) V2 of
       Inl e \<Rightarrow> (Inl e, w)
     | Inr read_saver \<Rightarrow>
    (case saver_restore (sd_var_list read_saver) current_checkpoint_file w of
       (Inl e, w1) \<Rightarrow> (Inl e, w1)
     | (Inr sess, w1) \<Rightarrow>
    (case new_saver (saveable_variables graph) V2 of
       Inl e \<Rightarrow> (Inl e, w1)
     | Inr write_saver \<Rightarrow> saver_save write_saver sess new_checkpoint_file w1)))"

text \<open>The two placeholder functions (lines 110-140) and their map (lines 143-147).\<close>

definition priv_image_tensor_input_placeholder ::
  "int option list option \<Rightarrow> 'v world \<Rightarrow> (error + gtensor \<times> gtensor) \<times> 'v world" where
  "priv_image_tensor_input_placeholder input_shape w =
    (let shape = (case input_shape of None \<Rightarrow> [None, None, None, Some 3] | Some sh \<Rightarrow> sh)
     in case tf_op (Tf_placeholder Uint8 shape ''image_tensor'') w of
          (Inl e, w1) \<Rightarrow> (Inl e, w1)
        | (Inr input_tensor, w1) \<Rightarrow> (Inr (input_tensor, input_tensor), w1))"

definition priv_encoded_image_string_tensor_input_placeholder ::
  "'v world \<Rightarrow> (error + gtensor \<times> gtensor) \<times> 'v world" where
  "priv_encoded_image_string_tensor_input_placeholder w =
    (case tf_op (Tf_placeholder String_dtype [None] ''encoded_image_string_tensor'') w of
       (Inl e, w1) \<Rightarrow> (Inl e, w1)
     | (Inr batch_image_str_placeholder, w1) \<Rightarrow>
    (case tf_op (Tf_map_fn_decode_image batch_image_str_placeholder) w1 of
       (Inl e, w2) \<Rightarrow> (Inl e, w2)
     | (Inr images, w2) \<Rightarrow> (Inr (batch_image_str_placeholder, images), w2)))"

datatype placeholder_fn = Image_tensor_fn | Encoded_image_string_tensor_fn

definition input_placeholder_fn_map :: "(string \<times> placeholder_fn) list" where
  "input_placeholder_fn_map =
    [(''image_tensor'', Image_tensor_fn),
     (''encoded_image_string_tensor'', Encoded_image_string_tensor_fn)]"

text \<open>
  \<open>fn(**placeholder_args)\<close>: the arguments are empty or hold \<open>input_shape\<close>; the second
  function takes no argument.
\<close>

definition call_placeholder_fn ::
  "placeholder_fn \<Rightarrow> int option list option \<Rightarrow> 'v world \<Rightarrow>
     (error + gtensor \<times> gtensor) \<times> 'v world" where
  "call_placeholder_fn fn placeholder_args w =
    (case fn of
       Image_tensor_fn \<Rightarrow> priv_image_tensor_input_placeholder placeholder_args w
     | Encoded_image_string_tensor_fn \<Rightarrow>
        (case placeholder_args of
           None \<Rightarrow> priv_encoded_image_string_tensor_input_placeholder w
         | Some _ \<Rightarrow>
             (Inl (TypeError (''got an unexpected keyword argument 'input_shape'' @ [CHR 0x27])),
              w)))"

text \<open>
  \<open>_add_output_tensor_nodes\<close> (lines 150-175). \<open>dict.get\<close> gives \<open>None\<close> for a missing
  key, and \<open>tf.identity(None)\<close> raises.
\<close>

definition priv_add_output_tensor_nodes ::
  "(string \<times> gtensor) list \<Rightarrow> string \<Rightarrow> 'v world \<Rightarrow>
     (error + (string \<times> gtensor) list) \<times> 'v world" where
  "priv_add_output_tensor_nodes postprocessed_tensors output_collection_name w =
    (case map_of postprocessed_tensors ''classes'' of
       None \<Rightarrow> (Inl (ValueError ''None values not supported.''), w)
     | Some classes \<Rightarrow>
    (case tf_op (Tf_identity classes ''classes'') w of
       (Inl e, w1) \<Rightarrow> (Inl e, w1)
     | (Inr out_classes, w1) \<Rightarrow>
    (case map_of postprocessed_tensors ''logits'' of
       None \<Rightarrow> (Inl (ValueError ''None values not supported.''), w1)
     | Some logits \<Rightarrow>
    (case tf_op (Tf_identity logits ''logits'') w1 of
       (Inl e, w2) \<Rightarrow> (Inl e, w2)
     | (Inr out_logits, w2) \<Rightarrow>
        (let outputs = [(''classes'', out_classes), (''logits'', out_logits)]
         in (Inr outputs,
             w2\<lparr>default_graph :=
                  (default_graph w2)\<lparr>g_collections := g_collections (default_graph w2) @
                     map (\<lambda>(k, t). (output_collection_name, t)) outputs\<rparr>\<rparr>))))))"

text \<open>\<open>write_frozen_graph\<close> (lines 178-187).\<close>

definition write_frozen_graph :: "string \<Rightarrow> 'v graph \<Rightarrow> 'v world \<Rightarrow> 'v world" where
  "write_frozen_graph frozen_graph_path frozen_graph_def w =
    w\<lparr>graph_files := (graph_files w)(frozen_graph_path \<mapsto> frozen_graph_def),
      calls := calls w @ [Write_file frozen_graph_path]\<rparr>"

definition serving_signature :: "gtensor \<Rightarrow> (string \<times> gtensor) list \<Rightarrow> signature_def" where
  "serving_signature inputs outputs =
    \<lparr> sig_inputs = [(''inputs'', inputs)],
      sig_outputs = map (\<lambda>(k, v). (k, v)) outputs,
      sig_method_name = PREDICT_METHOD_NAME \<rparr>"

text \<open>
  \<open>write_saved_model\<close> (lines 190-235): imports the frozen graph definition into a new
  graph, which has no variables, and bundles that graph. The exporter never calls it.
\<close>

definition write_saved_model ::
  "string \<Rightarrow> 'v graph \<Rightarrow> gtensor \<Rightarrow> (string \<times> gtensor) list \<Rightarrow> 'v world \<Rightarrow>
     (error + unit) \<times> 'v world" where
  "write_saved_model saved_model_path frozen_graph_def inputs outputs w =
    builder_save saved_model_path frozen_graph_def Map.empty [SERVING]
      [(DEFAULT_SERVING_SIGNATURE_DEF_KEY, serving_signature inputs outputs)] w"

text \<open>
  \<open>_write_saved_model\<close> (lines 239-274): restores the variables of the default graph
  from \<open>trained_checkpoint_prefix\<close> and bundles the default graph with them.
\<close>

definition priv_write_saved_model ::
  "string \<Rightarrow> string \<Rightarrow> gtensor \<Rightarrow> (string \<times> gtensor) list \<Rightarrow> 'v world \<Rightarrow>
     (error + unit) \<times> 'v world" where
  "priv_write_saved_model saved_model_path trained_checkpoint_prefix inputs outputs w =
    (case new_saver (saveable_variables (default_graph w)) V2 of
       Inl e \<Rightarrow> (Inl e, w)
     | Inr saver \<Rightarrow>
        (case saver_restore (sd_var_list saver) trained_checkpoint_prefix w of
           (Inl e, w1) \<Rightarrow> (Inl e, w1)
         | (Inr sess, w1) \<Rightarrow>
             builder_save saved_model_path (default_graph w1) sess [SERVING]
               [(DEFAULT_SERVING_SIGNATURE_DEF_KEY, serving_signature inputs outputs)] w1))"

text \<open>\<open>write_graph_and_checkpoint\<close> (lines 277-290).\<close>

definition write_graph_and_checkpoint ::
  "'v graph \<Rightarrow> string \<Rightarrow> saver_def \<Rightarrow> string \<Rightarrow> 'v world \<Rightarrow> (error + unit) \<times> 'v world" where
  "write_graph_and_checkpoint inference_graph_def model_path input_saver_def
       trained_checkpoint_prefix w =
    (case saver_restore (sd_var_list input_saver_def) trained_checkpoint_prefix w of
       (Inl e, w1) \<Rightarrow> (Inl e, w1)
     | (Inr sess, w1) \<Rightarrow> saver_save input_saver_def sess model_path w1)"

text \<open>\<open>_get_outputs_from_inputs\<close> (lines 293-299), with the defaults of \<open>model_preprocess\<close>.\<close>

definition priv_get_outputs_from_inputs ::
  "gtensor \<Rightarrow> int \<Rightarrow> 'v slim_model \<Rightarrow> string \<Rightarrow> 'v world \<Rightarrow>
     (error + (string \<times> gtensor) list) \<times> 'v world" where
  "priv_get_outputs_from_inputs input_tensors image_size model output_collection_name w =
    (case tf_op (Tf_to_float input_tensors) w of
       (Inl e, w1) \<Rightarrow> (Inl e, w1)
     | (Inr inputs, w1) \<Rightarrow>
    (case model_preprocess inputs image_size image_size 0.875 True False w1 of
       (Inl e, w2) \<Rightarrow> (Inl e, w2)
     | (Inr preprocessed_inputs, w2) \<Rightarrow>
    (case model_postprocess model preprocessed_inputs w2 of
       (Inl e, w3) \<Rightarrow> (Inl e, w3)
     | (Inr postprocessed_tensors, w3) \<Rightarrow>
        priv_add_output_tensor_nodes postprocessed_tensors output_collection_name w3)))"

text \<open>\<open>slim.get_or_create_global_step()\<close>\<close>

definition get_or_create_global_step :: "'v graph \<Rightarrow> 'v graph" where
  "get_or_create_global_step g =
    (if ''global_step'' \<in> set (map v_name (g_variables g)) then g
     else g\<lparr>g_variables := g_variables g @ [\<lparr> v_name = ''global_step'', v_trainable = False \<rparr>]\<rparr>)"

text \<open>\<open>_build_model_graph\<close> (lines 302-326).\<close>

definition priv_build_model_graph ::
  "string \<Rightarrow> int \<Rightarrow> 'v slim_model \<Rightarrow> int option list option \<Rightarrow> string \<Rightarrow>
     'v graph_hook option \<Rightarrow> 'v world \<Rightarrow>
     (error + ((string \<times> gtensor) list \<times> gtensor)) \<times> 'v world" where
  "priv_build_model_graph input_type image_size model input_shape output_collection_name
       graph_hook_fn w =
    (case map_of input_placeholder_fn_map input_type of
       None \<Rightarrow> (Inl (ValueError (''Unknown input type: '' @ input_type)), w)
     | Some fn \<Rightarrow>
    (case (case input_shape of
             None \<Rightarrow> Inr None
           | Some sh \<Rightarrow>
               if input_type \<noteq> ''image_tensor''
               then Inl (ValueError
                      ''Can only specify input shape for 'image_tensor' inputs.'')
               else Inr (Some sh)) of
       Inl e \<Rightarrow> (Inl e, w)
     | Inr placeholder_args \<Rightarrow>
    (case call_placeholder_fn fn placeholder_args w of
       (Inl e, w1) \<Rightarrow> (Inl e, w1)
     | (Inr (placeholder_tensor, input_tensors), w1) \<Rightarrow>
    (case priv_get_outputs_from_inputs input_tensors image_size model
            output_collection_name w1 of
       (Inl e, w2) \<Rightarrow> (Inl e, w2)
     | (Inr outputs, w2) \<Rightarrow>
        (let w3 = w2\<lparr>default_graph := get_or_create_global_step (default_graph w2)\<rparr>
         in case graph_hook_fn of
              None \<Rightarrow> (Inr (outputs, placeholder_tensor), w3)
            | Some hook \<Rightarrow>
               (case hook (default_graph w3) of
                  (Inl e, g) \<Rightarrow> (Inl e, w3\<lparr>default_graph := g\<rparr>)
                | (Inr _, g) \<Rightarrow>
                    (Inr (outputs, placeholder_tensor), w3\<lparr>default_graph := g\<rparr>)))))))"

text \<open>
  Lines 371-384 of \<open>export_inference_graph\<close>: the choice of the checkpoint to use. The
  result is the write version for the saver and \<open>checkpoint_to_use\<close>.
\<close>

definition select_checkpoint ::
  "bool option \<Rightarrow> string \<Rightarrow> 'v world \<Rightarrow> (error + (write_version \<times> string)) \<times> 'v world" where
  "select_checkpoint use_moving_averages trained_checkpoint_prefix w =
    (if use_moving_averages = Some True
     then (case (if os_path_isfile w trained_checkpoint_prefix
                 then (V1, named_temporary_file_name w)
                 else (V2, mkdtemp w)) of
             (ver, temp_checkpoint_prefix, w1) \<Rightarrow>
               (case replace_variable_values_with_moving_averages (default_graph w1)
                       trained_checkpoint_prefix temp_checkpoint_prefix w1 of
                  (Inl e, w2) \<Rightarrow> (Inl e, w2)
                | (Inr _, w2) \<Rightarrow> (Inr (ver, temp_checkpoint_prefix), w2)))
     else (Inr (V2, trained_checkpoint_prefix), w))"

text \<open>
  Lines 395-399: \<open>outputs.keys() + additional_output_tensor_names\<close> adds a list to a
  dictionary view, which Python 3 (the interpreter the file names) refuses.
\<close>

definition output_node_names_of ::
  "(string \<times> gtensor) list \<Rightarrow> string list option \<Rightarrow> error + string" where
  "output_node_names_of outputs additional_output_tensor_names =
    (case additional_output_tensor_names of
       Some names \<Rightarrow>
         Inl (TypeError (''unsupported operand type(s) for +: 'dict_keys' and 'list'' @ [CHR 0x27]))
     | None \<Rightarrow> Inr (comma_join (map fst outputs)))"

text \<open>\<open>export_inference_graph\<close> (lines 329-413).\<close>

definition export_inference_graph ::
  "string \<Rightarrow> int \<Rightarrow> 'v slim_model \<Rightarrow> string \<Rightarrow> string \<Rightarrow> int option list option \<Rightarrow>
     bool option \<Rightarrow> string \<Rightarrow> string list option \<Rightarrow> 'v graph_hook option \<Rightarrow>
     'v world \<Rightarrow> (error + unit) \<times> 'v world" where
  "export_inference_graph input_type image_size model trained_checkpoint_prefix
       output_directory input_shape use_moving_averages output_collection_name
       additional_output_tensor_names graph_hook_fn w =
    (let w0 = make_dirs output_directory w;
         frozen_graph_path = os_path_join output_directory ''frozen_inference_graph.pb'';
         saved_model_path = os_path_join output_directory ''saved_model'';
         model_path = os_path_join output_directory ''model.ckpt''
     in case priv_build_model_graph input_type image_size model input_shape
               output_collection_name graph_hook_fn w0 of
          (Inl e, w1) \<Rightarrow> (Inl e, w1)
        | (Inr (outputs, placeholder_tensor), w1) \<Rightarrow>
       (case select_checkpoint use_moving_averages trained_checkpoint_prefix w1 of
          (Inl e, w2) \<Rightarrow> (Inl e, w2)
        | (Inr (ver, checkpoint_to_use), w2) \<Rightarrow>
       (case new_saver (saveable_variables (default_graph w2)) ver of
          Inl e \<Rightarrow> (Inl e, w2)
        | Inr input_saver_def \<Rightarrow>
       (case write_graph_and_checkpoint (as_graph_def (default_graph w2)) model_path
               input_saver_def checkpoint_to_use w2 of
          (Inl e, w3) \<Rightarrow> (Inl e, w3)
        | (Inr _, w3) \<Rightarrow>
       (case output_node_names_of outputs additional_output_tensor_names of
          Inl e \<Rightarrow> (Inl e, w3)
        | Inr output_node_names \<Rightarrow>
       (case freeze_graph_with_def_protos (as_graph_def (default_graph w3)) input_saver_def
               checkpoint_to_use output_node_names frozen_graph_path w3 of
          (Inl e, w4) \<Rightarrow> (Inl e, w4)
        | (Inr frozen_graph_def, w4) \<Rightarrow>
            priv_write_saved_model saved_model_path trained_checkpoint_prefix
              placeholder_tensor outputs
              (write_frozen_graph frozen_graph_path frozen_graph_def w4)))))))"


section \<open>Sample data\<close>

subsection \<open>Datasets, collaborators and flags for the evaluation driver\<close>

definition flowers :: dataset where
  "flowers = \<lparr> num_samples = 350, num_classes = 5,
               labels_to_names = Some [0 \<mapsto> ''daisy'', 1 \<mapsto> ''dandelion'', 2 \<mapsto> ''roses'',
                                       3 \<mapsto> ''sunflowers'', 4 \<mapsto> ''tulips''] \<rparr>"

definition dog_vs_cat :: dataset where
  "dog_vs_cat = \<lparr> num_samples = 250, num_classes = 2,
                  labels_to_names = Some [0 \<mapsto> ''cat'', 1 \<mapsto> ''dog''] \<rparr>"

definition sample_collaborators :: collaborators where
  "sample_collaborators =
    \<lparr> get_dataset = (\<lambda>name split dir.
        if name = ''dog-vs-cat'' then Inr dog_vs_cat
        else if name = ''flowers'' then Inr flowers
        else Inl (ValueError ''Name of dataset unknown'')),
      get_network_fn = (\<lambda>name n training. Inr 299),
      get_preprocessing = (\<lambda>name training gray. Inr ()),
      IsDirectory = (\<lambda>p. case p of None \<Rightarrow> Inl (TypeError ''Expected binary or unicode string, got None'')
                              | Some _ \<Rightarrow> Inr False),
      latest_checkpoint = (\<lambda>p. None),
      evaluate_once = (\<lambda>c. Inr ()) \<rparr>"

definition flowers_flags :: flags where
  "flowers_flags = default_flags\<lparr> dataset_name := ''flowers'', dataset_dir := Some ''/data/flowers'',
       checkpoint_path := Some ''/ckpt/model.ckpt'', model_name := ''inception_v3'' \<rparr>"

definition dog_flags :: flags where
  "dog_flags = default_flags\<lparr> data_path := Some ''/data/dog-vs-cat'',
       checkpoint_path := Some ''/ckpt/model.ckpt'' \<rparr>"


definition dog_out_flags :: flags where
  "dog_out_flags = dog_flags\<lparr> output_path := Some ''/out'' \<rparr>"

definition flowers_path_flags :: flags where
  "flowers_path_flags = default_flags\<lparr> data_path := Some ''/data/flowers'' \<rparr>"

definition out_only_flags :: flags where
  "out_only_flags = default_flags\<lparr> dataset_dir := Some ''/data/flowers'',
       output_path := Some ''/out'' \<rparr>"

definition offset_flags :: flags where
  "offset_flags = flowers_flags\<lparr> labels_offset := 1 \<rparr>"



subsection \<open>A model, a trained checkpoint and a file system for the exporter\<close>

text \<open>
  A model with a trainable weight \<open>w\<close> and a moving mean of batch normalisation, which
  is not trainable; its logits read both.
\<close>

definition sample_model :: "int slim_model" where
  "sample_model images g =
    (Inr (Model_logits images [''w'', ''bn/moving_mean'']),
     g\<lparr>g_nodes := g_nodes g @ [Model_logits images [''w'', ''bn/moving_mean'']],
       g_variables := g_variables g @
          [\<lparr> v_name = ''w'', v_trainable = True \<rparr>,
           \<lparr> v_name = ''bn/moving_mean'', v_trainable = False \<rparr>]\<rparr>)"

definition trained_checkpoint :: "string \<rightharpoonup> int" where
  "trained_checkpoint =
    [''w'' \<mapsto> 1, ''w/ExponentialMovingAverage'' \<mapsto> 2, ''bn/moving_mean'' \<mapsto> 5,
     ''global_step'' \<mapsto> 100]"

definition empty_graph :: "int graph" where
  "empty_graph = \<lparr> g_nodes = [], g_variables = [], g_constants = [], g_collections = [] \<rparr>"

definition sample_world :: "int world" where
  "sample_world =
    \<lparr> default_graph = empty_graph,
      op_raises = (\<lambda>t. None),
      directories = [],
      checkpoints = [''/train/model.ckpt'' \<mapsto> (V2, trained_checkpoint)],
      graph_files = Map.empty,
      saved_models = Map.empty,
      temp_names = (\<lambda>n. ''/tmp/tmpexport''),
      temp_next = 0,
      calls = [] \<rparr>"

definition sample_plain_export :: "(error + unit) \<times> int world" where
  "sample_plain_export =
    export_inference_graph ''image_tensor'' 299 sample_model ''/train/model.ckpt'' ''/out''
      None None ''inference_op'' None None sample_world"

definition sample_ma_export :: "(error + unit) \<times> int world" where
  "sample_ma_export =
    export_inference_graph ''image_tensor'' 299 sample_model ''/train/model.ckpt'' ''/out''
      None (Some True) ''inference_op'' None None sample_world"

definition sample_additional_export :: "(error + unit) \<times> int world" where
  "sample_additional_export =
    export_inference_graph ''image_tensor'' 299 sample_model ''/train/model.ckpt'' ''/out''
      None None ''inference_op'' (Some [''Softmax'']) None sample_world"


section \<open>Properties of the evaluation driver\<close>

subsection \<open>Doubles\<close>

text \<open>
  Rounding to a double changes a number by at most half a unit in the last place, leaves
  an integer of magnitude up to \<open>2 ^ 53\<close> as it is, and so does not change the ceiling
  of a quotient of two integers of magnitude below \<open>2 ^ 53\<close>.
\<close>

lemma round_half_even_of_int: "round_half_even (of_int k) = k"
  by (simp add: round_half_even_def)

lemma round_half_even_error: "\<bar>of_int (round_half_even y) - y\<bar> \<le> 1 / 2"
proof -
  have "of_int \<lfloor>y\<rfloor> \<le> y" "y < of_int \<lfloor>y\<rfloor> + 1" by linarith+
  then show ?thesis
    by (auto simp: round_half_even_def Let_def abs_le_iff)
qed

lemma two_powi_floor_log:
  assumes "x \<noteq> 0"
  shows "2 powi \<lfloor>log 2 \<bar>x\<bar>\<rfloor> \<le> \<bar>x\<bar>" and "\<bar>x\<bar> < 2 powi (\<lfloor>log 2 \<bar>x\<bar>\<rfloor> + 1)"
proof -
  have pos: "0 < \<bar>x\<bar>" using assms by simp
  have "of_int \<lfloor>log 2 \<bar>x\<bar>\<rfloor> \<le> log 2 \<bar>x\<bar>" by (rule of_int_floor_le)
  then have "2 powr of_int \<lfloor>log 2 \<bar>x\<bar>\<rfloor> \<le> \<bar>x\<bar>"
    using le_log_iff [of 2 "\<bar>x\<bar>" "of_int \<lfloor>log 2 \<bar>x\<bar>\<rfloor>"] pos by linarith
  then show "2 powi \<lfloor>log 2 \<bar>x\<bar>\<rfloor> \<le> \<bar>x\<bar>"
    by (simp add: powr_real_of_int')
  have "log 2 \<bar>x\<bar> < of_int (\<lfloor>log 2 \<bar>x\<bar>\<rfloor> + 1)" by linarith
  then have "\<bar>x\<bar> < 2 powr of_int (\<lfloor>log 2 \<bar>x\<bar>\<rfloor> + 1)"
    using log_less_iff [of 2 "\<bar>x\<bar>" "of_int (\<lfloor>log 2 \<bar>x\<bar>\<rfloor> + 1)"] pos by linarith
  then show "\<bar>x\<bar> < 2 powi (\<lfloor>log 2 \<bar>x\<bar>\<rfloor> + 1)"
    using powr_real_of_int' [of 2 "\<lfloor>log 2 \<bar>x\<bar>\<rfloor> + 1"] by simp
qed

lemma floor_log_bounds:
  assumes "2 powi a \<le> \<bar>x\<bar>" and "\<bar>x\<bar> < 2 powi (b + 1)"
  shows "a \<le> \<lfloor>log 2 \<bar>x\<bar>\<rfloor>" and "\<lfloor>log 2 \<bar>x\<bar>\<rfloor> \<le> b"
proof -
  have less: "m < n" if "(2::real) powi m < 2 powi n" for m n :: int
  proof (rule ccontr)
    assume "\<not> m < n"
    then have "n \<le> m" by simp
    then have "(2::real) powi n \<le> 2 powi m" by (rule power_int_increasing) simp
    with that show False by linarith
  qed
  have "(0::real) < 2 powi a" by simp
  with assms(1) have pos: "0 < \<bar>x\<bar>" by linarith
  then have x: "x \<noteq> 0" by simp
  note B = two_powi_floor_log [OF x]
  have "(2::real) powi a < 2 powi (\<lfloor>log 2 \<bar>x\<bar>\<rfloor> + 1)" using assms(1) B(2) by linarith
  then have "a < \<lfloor>log 2 \<bar>x\<bar>\<rfloor> + 1" by (rule less)
  then show "a \<le> \<lfloor>log 2 \<bar>x\<bar>\<rfloor>" by simp
  have "(2::real) powi \<lfloor>log 2 \<bar>x\<bar>\<rfloor> < 2 powi (b + 1)" using assms(2) B(1) by linarith
  then have "\<lfloor>log 2 \<bar>x\<bar>\<rfloor> < b + 1" by (rule less)
  then show "\<lfloor>log 2 \<bar>x\<bar>\<rfloor> \<le> b" by simp
qed

lemma double_ulp_pos: "0 < double_ulp x"
  by (simp add: double_ulp_def)

lemma round_double_of_int:
  assumes "\<bar>m\<bar> \<le> 2 ^ 53"
  shows "round_double (of_int m) = of_int m"
proof (cases "m = 0")
  case True
  then show ?thesis by (simp add: round_double_def)
next
  case False
  let ?x = "real_of_int m"
  let ?e = "\<lfloor>log 2 \<bar>?x\<bar>\<rfloor>"
  have x: "?x \<noteq> 0" using False by simp
  have "1 \<le> \<bar>?x\<bar>" using False by (simp flip: of_int_abs)
  then have lo: "2 powi 0 \<le> \<bar>?x\<bar>" by simp
  have "\<bar>?x\<bar> \<le> 2 ^ 53" using assms by (simp flip: of_int_abs)
  then have hi: "\<bar>?x\<bar> < 2 powi (53 + 1)" by simp
  have e0: "0 \<le> ?e" and e53: "?e \<le> 53"
    using floor_log_bounds [OF lo hi] by simp_all
  have "- 1022 \<le> ?e" using e0 by linarith
  then have "max ?e (- 1022) = ?e" by (rule max_absorb1)
  then have ulp: "double_ulp ?x = 2 powi (?e - 52)"
    by (simp only: double_ulp_def)
  have "\<exists>k. ?x / 2 powi (?e - 52) = real_of_int k"
  proof (cases "?e \<le> 52")
    case True
    then have "(2::real) powi (52 - ?e) = 2 ^ nat (52 - ?e)"
      by (simp add: power_int_def)
    moreover have "?x / 2 powi (?e - 52) = ?x * 2 powi (52 - ?e)"
      by (simp add: power_int_diff field_simps)
    ultimately have "?x / 2 powi (?e - 52) = real_of_int (m * 2 ^ nat (52 - ?e))"
      by simp
    then show ?thesis by blast
  next
    case False
    from False e53 have e: "?e = 53" by linarith
    have "2 powi ?e \<le> \<bar>?x\<bar>" using two_powi_floor_log(1) [OF x] .
    then have "2 ^ 53 \<le> \<bar>?x\<bar>" by (simp add: e)
    with \<open>\<bar>?x\<bar> \<le> 2 ^ 53\<close> have "\<bar>?x\<bar> = 2 ^ 53" by simp
    then have "real_of_int \<bar>m\<bar> = real_of_int (2 ^ 53)" by simp
    then have "\<bar>m\<bar> = 2 ^ 53" by (simp only: of_int_eq_iff)
    then have "m = 2 ^ 53 \<or> m = - (2 ^ 53)" by auto
    then have "?x / 2 powi (?e - 52) = real_of_int (m div 2)"
      by (auto simp: e)
    then show ?thesis by blast
  qed
  then obtain k where k: "?x / double_ulp ?x = real_of_int k" unfolding ulp by blast
  have "round_double ?x = of_int k * double_ulp ?x"
    using x by (simp add: round_double_def k round_half_even_of_int)
  also have "\<dots> = ?x / double_ulp ?x * double_ulp ?x" by (simp add: k)
  also have "\<dots> = ?x" using double_ulp_pos [of ?x] by simp
  finally show ?thesis .
qed

lemma round_double_error:
  assumes "2 powi (- 1022) \<le> \<bar>x\<bar>"
  shows "\<bar>round_double x - x\<bar> \<le> \<bar>x\<bar> / 2 ^ 53"
proof -
  let ?e = "\<lfloor>log 2 \<bar>x\<bar>\<rfloor>"
  have "(0::real) < 2 powi (- 1022)" by simp
  with assms have pos: "0 < \<bar>x\<bar>" by linarith
  then have x: "x \<noteq> 0" by simp
  have "\<bar>x\<bar> < 2 powi (?e + 1)" using two_powi_floor_log(2) [OF x] .
  from floor_log_bounds(1) [OF assms this] have e: "- 1022 \<le> ?e" .
  have "max ?e (- 1022) = ?e" using e by (rule max_absorb1)
  then have ulp: "double_ulp x = 2 powi (?e - 52)"
    by (simp only: double_ulp_def)
  let ?u = "double_ulp x"
  have u: "0 < ?u" by (rule double_ulp_pos)
  have "\<bar>round_double x - x\<bar> = \<bar>of_int (round_half_even (x / ?u)) - x / ?u\<bar> * ?u"
  proof -
    have "round_double x - x = (of_int (round_half_even (x / ?u)) - x / ?u) * ?u"
      using x u by (simp add: round_double_def field_simps)
    then show ?thesis using u by (simp add: abs_mult)
  qed
  also have "\<dots> \<le> 1 / 2 * ?u"
    using round_half_even_error [of "x / ?u"] u by (intro mult_right_mono) simp_all
  also have "\<dots> = 2 powi ?e / 2 ^ 53"
    unfolding ulp by (simp add: power_int_diff)
  also have "\<dots> \<le> \<bar>x\<bar> / 2 ^ 53"
    using two_powi_floor_log(1) [OF x] by (simp add: divide_right_mono)
  finally show ?thesis .
qed

lemma quotient_gap:
  assumes "b \<noteq> 0" and "0 < real_of_int p / real_of_int b"
  shows "1 / \<bar>real_of_int b\<bar> \<le> real_of_int p / real_of_int b"
proof -
  have "p \<noteq> 0" using assms by auto
  then have "1 \<le> \<bar>real_of_int p\<bar>" by (simp flip: of_int_abs)
  then have "1 / \<bar>real_of_int b\<bar> \<le> \<bar>real_of_int p\<bar> / \<bar>real_of_int b\<bar>"
    by (simp add: divide_right_mono)
  also have "\<dots> = \<bar>real_of_int p / real_of_int b\<bar>" by (rule abs_divide [symmetric])
  also have "\<dots> = real_of_int p / real_of_int b" using assms(2) by (rule abs_of_pos)
  finally show ?thesis .
qed

lemma ceiling_round_double_quotient:
  assumes n: "\<bar>n\<bar> < 2 ^ 53" and b: "\<bar>b\<bar> < 2 ^ 53" and b0: "b \<noteq> 0"
  shows "\<lceil>round_double (real_of_int n / real_of_int b)\<rceil> = \<lceil>real_of_int n / real_of_int b\<rceil>"
proof -
  let ?x = "real_of_int n / real_of_int b"
  let ?k = "\<lceil>?x\<rceil>"
  have babs: "1 \<le> \<bar>real_of_int b\<bar>" using b0 by (simp flip: of_int_abs)
  show ?thesis
  proof (cases "?x = of_int ?k")
    case True
    have "\<bar>?x\<bar> \<le> \<bar>real_of_int n\<bar>"
    proof -
      have "\<bar>?x\<bar> = \<bar>real_of_int n\<bar> / \<bar>real_of_int b\<bar>" by simp
      also have "\<dots> \<le> \<bar>real_of_int n\<bar> / 1"
        using babs by (intro divide_left_mono) simp_all
      finally show ?thesis by simp
    qed
    then have "\<bar>real_of_int ?k\<bar> \<le> \<bar>real_of_int n\<bar>" using True by simp
    then have "\<bar>?k\<bar> \<le> \<bar>n\<bar>" by (simp flip: of_int_abs)
    with n have "\<bar>?k\<bar> \<le> 2 ^ 53" by simp
    from round_double_of_int [OF this] have "round_double ?x = of_int ?k"
      using True by simp
    then show ?thesis by simp
  next
    case False
    have up: "?x < of_int ?k" using False le_of_int_ceiling [of ?x] by linarith
    have lo: "of_int ?k - 1 < ?x" using ceiling_correct [of ?x] by simp
    have x0: "?x \<noteq> 0" using False by auto
    have g1: "1 / \<bar>real_of_int b\<bar> \<le> ?x - (of_int ?k - 1)"
    proof -
      have "?x - (of_int ?k - 1) = real_of_int (n - (?k - 1) * b) / real_of_int b"
        using b0 by (simp add: field_simps)
      moreover have "0 < ?x - (of_int ?k - 1)" using lo by simp
      ultimately show ?thesis
        using quotient_gap [OF b0, of "n - (?k - 1) * b"] by simp
    qed
    have g2: "1 / \<bar>real_of_int b\<bar> \<le> of_int ?k - ?x"
    proof -
      have "of_int ?k - ?x = real_of_int (?k * b - n) / real_of_int b"
        using b0 by (simp add: field_simps)
      moreover have "0 < of_int ?k - ?x" using up by simp
      ultimately show ?thesis
        using quotient_gap [OF b0, of "?k * b - n"] by simp
    qed
    have nz: "n \<noteq> 0" using x0 by auto
    have xabs: "\<bar>?x\<bar> = \<bar>real_of_int n\<bar> / \<bar>real_of_int b\<bar>" by simp
    have "1 / 2 ^ 53 \<le> 1 / \<bar>real_of_int b\<bar>"
    proof -
      have "\<bar>real_of_int b\<bar> \<le> 2 ^ 53" using b by (simp flip: of_int_abs)
      then show ?thesis using babs by (intro divide_left_mono) simp_all
    qed
    moreover have "1 / \<bar>real_of_int b\<bar> \<le> \<bar>?x\<bar>"
    proof -
      have "1 \<le> \<bar>real_of_int n\<bar>" using nz by (simp flip: of_int_abs)
      then show ?thesis unfolding xabs using babs by (intro divide_right_mono) simp_all
    qed
    moreover have "(2::real) powi (- 1022) \<le> 1 / 2 ^ 53"
      by (simp add: power_int_minus field_simps)
    ultimately have norm: "2 powi (- 1022) \<le> \<bar>?x\<bar>" by linarith
    have "\<bar>real_of_int n\<bar> < 2 ^ 53" using n by (simp flip: of_int_abs)
    then have "\<bar>?x\<bar> / 2 ^ 53 < 1 / \<bar>real_of_int b\<bar>"
      unfolding xabs using babs by (simp add: field_simps)
    with round_double_error [OF norm]
    have err: "\<bar>round_double ?x - ?x\<bar> < 1 / \<bar>real_of_int b\<bar>" by linarith
    have "of_int ?k - 1 < round_double ?x" using err g1 by linarith
    moreover have "round_double ?x \<le> of_int ?k" using err g2 by linarith
    ultimately show ?thesis by (intro ceiling_unique) simp_all
  qed
qed

lemma float_of_int_exact:
  assumes "\<bar>m\<bar> < 2 ^ 53"
  shows "float_of_int m = Inr (real_of_int m)"
proof -
  have le: "\<bar>m\<bar> \<le> 2 ^ 53" using assms by simp
  have "\<bar>real_of_int m\<bar> < 2 ^ 53" using assms by (simp flip: of_int_abs)
  also have "(2::real) ^ 53 \<le> 2 ^ 1024" by (rule power_increasing) simp_all
  finally have "\<not> 2 ^ 1024 \<le> \<bar>real_of_int m\<bar>" by simp
  then show ?thesis
    by (simp only: float_of_int_def round_double_of_int [OF le] if_False)
qed

lemma ceil_div_exact:
  assumes "\<bar>n\<bar> < 2 ^ 53" and "\<bar>b\<bar> < 2 ^ 53"
  shows "ceil_div n b =
    (if b = 0 then Inl (ZeroDivisionError ''float division by zero'')
     else Inr \<lceil>real_of_int n / real_of_int b\<rceil>)"
proof (cases "b = 0")
  case True
  have "float_of_int 0 = Inr 0" using float_of_int_exact [of 0] by simp
  then show ?thesis
    unfolding True by (simp add: ceil_div_def float_of_int_exact [OF assms(1)])
next
  case False
  then have "real_of_int b \<noteq> 0" by simp
  with False show ?thesis
    by (simp add: ceil_div_def float_of_int_exact [OF assms(1)] float_of_int_exact [OF assms(2)]
          ceiling_round_double_quotient [OF assms False])
qed


subsection \<open>Runs of the script\<close>

lemma starts_with_iff: "starts_with p s \<longleftrightarrow> (\<exists>suf. s = p @ suf)"
  by (induction p s rule: starts_with.induct) auto

lemma str_in_iff: "str_in sub s \<longleftrightarrow> (\<exists>pre suf. s = pre @ sub @ suf)"
proof (induction s)
  case Nil
  then show ?case by auto
next
  case (Cons c s)
  show ?case
  proof
    assume "str_in sub (c # s)"
    then consider "starts_with sub (c # s)" | "str_in sub s" by auto
    then show "\<exists>pre suf. c # s = pre @ sub @ suf"
    proof cases
      case 1
      then obtain suf where "c # s = sub @ suf" by (auto simp: starts_with_iff)
      then have "c # s = [] @ sub @ suf" by simp
      then show ?thesis by blast
    next
      case 2
      then obtain pre suf where "s = pre @ sub @ suf" using Cons.IH by blast
      then have "c # s = (c # pre) @ sub @ suf" by simp
      then show ?thesis by blast
    qed
  next
    assume "\<exists>pre suf. c # s = pre @ sub @ suf"
    then obtain pre suf where eq: "c # s = pre @ sub @ suf" by blast
    show "str_in sub (c # s)"
    proof (cases pre)
      case Nil
      with eq have "starts_with sub (c # s)" by (auto simp: starts_with_iff)
      then show ?thesis by simp
    next
      case (Cons d pre')
      with eq have "s = pre' @ sub @ suf" by simp
      then have "str_in sub s" using Cons.IH by blast
      then show ?thesis by simp
    qed
  qed
qed

lemma define_metrics_names:
  "map fst (define_metrics ds lg pr lb) =
    (if num_classes ds > 2
     then [''Accuracy'', ''Precision'', ''Recall'', ''Recall_5'']
     else [''Accuracy'', ''Precision'', ''Recall'', ''F1_score'', ''Auc_ROC'', ''Auc_PR'',
           ''TP'', ''TN'', ''FP'', ''FN''])"
  by (simp add: define_metrics_def)

lemma define_metrics_labels:
  "m \<in> snd ` set (define_metrics ds lg pr lb) \<Longrightarrow> m_labels m = lb"
  by (auto simp: define_metrics_def metric_of_def split: if_splits)

lemma main_body_InrD:
  assumes "main_body env F dir = Inr ev"
  shows "get_dataset env (dataset_name F) (dataset_split_name F) dir = Inr (ev_dataset ev)"
    and "get_network_fn env (model_name F) (num_classes (ev_dataset ev) - labels_offset F) False
           = Inr (default_image_size (ev_network_fn ev))"
    and "nf_num_classes (ev_network_fn ev) = num_classes (ev_dataset ev) - labels_offset F"
    and "nf_name (ev_network_fn ev) = model_name F"
    and "compute_num_batches F (ev_dataset ev) = Inr (ev_num_batches ev)"
    and "eo_num_evals (ev_call ev) = ev_num_batches ev"
    and "ev_names_to_values ev = fst (aggregate_metric_map (ev_metrics ev))"
    and "ev_names_to_updates ev = snd (aggregate_metric_map (ev_metrics ev))"
    and "eo_eval_op (ev_call ev) = map snd (ev_names_to_updates ev)"
    and "evaluate_once env (ev_call ev) = Inr ()"
    and "map fst (ev_metrics ev) = map fst (define_metrics (ev_dataset ev) undefined undefined undefined)"
  using assms
  by (auto simp: main_body_def Let_def define_metrics_names split: sum.splits)

lemma main_body_labels:
  assumes "main_body env F dir = Inr ev" and "m \<in> snd ` set (ev_metrics ev)"
  shows "m_labels m =
          Squeeze (Batch (Subtract (Provider_get ''label'') (labels_offset F))
                   (batch_size F) (num_preprocessing_threads F) (5 * batch_size F))"
proof -
  from assms(1) obtain lg pr where
    "ev_metrics ev = define_metrics (ev_dataset ev) lg pr
        (Squeeze (Batch (Subtract (Provider_get ''label'') (labels_offset F))
                   (batch_size F) (num_preprocessing_threads F) (5 * batch_size F)))"
    by (auto simp: main_body_def Let_def split: sum.splits)
  with assms(2) show ?thesis
    using define_metrics_labels by metis
qed

lemma main_InrD:
  assumes "main env F = Inr ev"
  shows "\<exists>dir. dataset_dir F = Some dir \<and> dir \<noteq> [] \<and> main_body env F dir = Inr ev"
  using assms by (auto simp: main_def check_dataset_dir_def split: option.splits if_splits sum.splits)

lemmas sample_defs = sample_collaborators_def flowers_def dog_vs_cat_def flowers_flags_def
  dog_flags_def default_flags_def

lemmas main_defs = main_def check_dataset_dir_def main_body_def Let_def or_str_def or_int_def define_metrics_def
  metric_of_def aggregate_metric_map_def print_summaries_def annotate_def real_pred_def
  class_name_def compute_num_batches_def ceil_div_exact entry_block_def script_def

lemma flowers_run: "\<exists>ev. main sample_collaborators flowers_flags = Inr ev"
  by (simp add: sample_defs main_defs)

lemma dog_run: "\<exists>ev. script sample_collaborators dog_flags = Inr ev"
  by (simp add: sample_defs main_defs)

lemma dog_main_run: "\<exists>ev. main sample_collaborators (snd (entry_block dog_flags)) = Inr ev"
  by (simp add: sample_defs main_defs)

lemma main_body_metrics:
  assumes "main_body env F dir = Inr ev"
  shows "\<exists>lg lb. ev_metrics ev = define_metrics (ev_dataset ev) lg (Argmax lg 1) lb"
proof -
  let ?sz = "or_int (eval_image_size F) (default_image_size (ev_network_fn ev))"
  let ?lg = "Logits (ev_network_fn ev)
      (Batch (Preprocessed (or_str (preprocessing_name F) (model_name F)) (use_grayscale F)
                (Provider_get ''image'') ?sz ?sz)
         (batch_size F) (num_preprocessing_threads F) (5 * batch_size F))"
  let ?lb = "Squeeze (Batch (Subtract (Provider_get ''label'') (labels_offset F))
                   (batch_size F) (num_preprocessing_threads F) (5 * batch_size F))"
  have "ev_metrics ev = define_metrics (ev_dataset ev) ?lg (Argmax ?lg 1) ?lb"
    using assms by (auto simp: main_body_def Let_def split: sum.splits)
  then show ?thesis by blast
qed

lemma define_metrics_functions:
  "map (\<lambda>(name, m). (name, m_module m, m_fn m)) (define_metrics ds lg pr lb) =
    (if 2 < num_classes ds
     then [(''Accuracy'', Slim_metrics, Streaming_accuracy),
           (''Precision'', Slim_metrics, Streaming_precision),
           (''Recall'', Slim_metrics, Streaming_recall),
           (''Recall_5'', Slim_metrics, Streaming_recall_at_k 5)]
     else [(''Accuracy'', Local_metrics, Streaming_accuracy),
           (''Precision'', Local_metrics, Streaming_precision),
           (''Recall'', Local_metrics, Streaming_recall),
           (''F1_score'', Local_metrics, F1_score),
           (''Auc_ROC'', Local_metrics, Streaming_auc ROC),
           (''Auc_PR'', Local_metrics, Streaming_auc PR),
           (''TP'', Local_metrics, Streaming_true_positives),
           (''TN'', Local_metrics, Streaming_true_negatives),
           (''FP'', Local_metrics, Streaming_false_positives),
           (''FN'', Local_metrics, Streaming_false_negatives)])"
  by (simp add: define_metrics_def metric_of_def)

lemma define_metrics_predictions:
  "map (\<lambda>(name, m). m_predictions m) (define_metrics ds lg pr lb) =
    (if 2 < num_classes ds then [pr, pr, pr, lg] else [pr, pr, pr, pr, pr, pr, pr, pr, pr, pr])"
  by (simp add: define_metrics_def metric_of_def)

text \<open>
  Claim C1. In a run of \<open>main\<close> that returns, the metric set follows the dataset's class
  count: with more than two classes the metrics constructed are exactly Accuracy,
  Precision, Recall and Recall_5 (four entries), otherwise exactly Accuracy, Precision,
  Recall, F1_score, Auc_ROC, Auc_PR, TP, TN, FP and FN (ten entries). The value and update
  dictionaries have exactly these entries, and the operations handed to
  \<open>evaluate_once\<close> are the update operations of exactly these metrics. Each entry is built
  by the function its name says: in the first case by \<open>streaming_accuracy\<close>,
  \<open>streaming_precision\<close>, \<open>streaming_recall\<close> and \<open>streaming_recall_at_k\<close> with \<open>k = 5\<close> of
  \<open>slim.metrics\<close>, in the second by the ten functions of the local \<open>metrics\<close> module
  (\<open>streaming_auc\<close> with the curves \<open>ROC\<close> and \<open>PR\<close>). Every metric is computed from the
  predictions \<open>argmax(logits, 1)\<close>, except Recall_5, which is computed from the logits.
\<close>

theorem C1_metric_set_by_class_count:
  assumes "main env F = Inr ev"
  shows "(\<exists>dir. dataset_dir F = Some dir \<and>
            get_dataset env (dataset_name F) (dataset_split_name F) dir = Inr (ev_dataset ev)) \<and>
         (2 < num_classes (ev_dataset ev) \<longrightarrow>
            set (map fst (ev_metrics ev)) = {''Accuracy'', ''Precision'', ''Recall'', ''Recall_5''} \<and>
            length (ev_metrics ev) = 4) \<and>
         (num_classes (ev_dataset ev) \<le> 2 \<longrightarrow>
            set (map fst (ev_metrics ev)) =
              {''Accuracy'', ''Precision'', ''Recall'', ''F1_score'', ''Auc_ROC'', ''Auc_PR'',
               ''TP'', ''TN'', ''FP'', ''FN''} \<and>
            length (ev_metrics ev) = 10) \<and>
         ev_names_to_values ev = map (\<lambda>(name, m). (name, Value_op m)) (ev_metrics ev) \<and>
         ev_names_to_updates ev = map (\<lambda>(name, m). (name, Update_op m)) (ev_metrics ev) \<and>
         eo_eval_op (ev_call ev) = map (\<lambda>(name, m). Update_op m) (ev_metrics ev) \<and>
         evaluate_once env (ev_call ev) = Inr () \<and>
         map (\<lambda>(name, m). (name, m_module m, m_fn m)) (ev_metrics ev) =
           (if 2 < num_classes (ev_dataset ev)
            then [(''Accuracy'', Slim_metrics, Streaming_accuracy),
                  (''Precision'', Slim_metrics, Streaming_precision),
                  (''Recall'', Slim_metrics, Streaming_recall),
                  (''Recall_5'', Slim_metrics, Streaming_recall_at_k 5)]
            else [(''Accuracy'', Local_metrics, Streaming_accuracy),
                  (''Precision'', Local_metrics, Streaming_precision),
                  (''Recall'', Local_metrics, Streaming_recall),
                  (''F1_score'', Local_metrics, F1_score),
                  (''Auc_ROC'', Local_metrics, Streaming_auc ROC),
                  (''Auc_PR'', Local_metrics, Streaming_auc PR),
                  (''TP'', Local_metrics, Streaming_true_positives),
                  (''TN'', Local_metrics, Streaming_true_negatives),
                  (''FP'', Local_metrics, Streaming_false_positives),
                  (''FN'', Local_metrics, Streaming_false_negatives)]) \<and>
         (\<exists>logits. map (\<lambda>(name, m). m_predictions m) (ev_metrics ev) =
            (if 2 < num_classes (ev_dataset ev)
             then [Argmax logits 1, Argmax logits 1, Argmax logits 1, logits]
             else replicate 10 (Argmax logits 1)))"
proof -
  from assms obtain dir where dir: "dataset_dir F = Some dir" "main_body env F dir = Inr ev"
    using main_InrD by blast
  note D = main_body_InrD [OF dir(2)]
  have names: "map fst (ev_metrics ev) =
      (if num_classes (ev_dataset ev) > 2
       then [''Accuracy'', ''Precision'', ''Recall'', ''Recall_5'']
       else [''Accuracy'', ''Precision'', ''Recall'', ''F1_score'', ''Auc_ROC'', ''Auc_PR'',
             ''TP'', ''TN'', ''FP'', ''FN''])"
    using D(11) by (simp only: define_metrics_names)
  have len: "length (ev_metrics ev) = length (map fst (ev_metrics ev))" by simp
  have s1: "2 < num_classes (ev_dataset ev) \<longrightarrow>
            set (map fst (ev_metrics ev)) = {''Accuracy'', ''Precision'', ''Recall'', ''Recall_5''} \<and>
            length (ev_metrics ev) = 4"
    unfolding len names by simp
  have s2: "num_classes (ev_dataset ev) \<le> 2 \<longrightarrow>
            set (map fst (ev_metrics ev)) =
              {''Accuracy'', ''Precision'', ''Recall'', ''F1_score'', ''Auc_ROC'', ''Auc_PR'',
               ''TP'', ''TN'', ''FP'', ''FN''} \<and>
            length (ev_metrics ev) = 10"
    unfolding len names by simp
  have v: "ev_names_to_values ev = map (\<lambda>(name, m). (name, Value_op m)) (ev_metrics ev)"
    using D(7) by (simp add: aggregate_metric_map_def)
  have u: "ev_names_to_updates ev = map (\<lambda>(name, m). (name, Update_op m)) (ev_metrics ev)"
    using D(8) by (simp add: aggregate_metric_map_def)
  have op: "eo_eval_op (ev_call ev) = map (\<lambda>(name, m). Update_op m) (ev_metrics ev)"
    using D(9) u by (simp add: case_prod_unfold comp_def)
  have a: "\<exists>dir. dataset_dir F = Some dir \<and>
            get_dataset env (dataset_name F) (dataset_split_name F) dir = Inr (ev_dataset ev)"
    using dir(1) D(1) by simp
  from main_body_metrics [OF dir(2)] obtain lg lb where
    ms: "ev_metrics ev = define_metrics (ev_dataset ev) lg (Argmax lg 1) lb" by blast
  have f: "map (\<lambda>(name, m). (name, m_module m, m_fn m)) (ev_metrics ev) =
           (if 2 < num_classes (ev_dataset ev)
            then [(''Accuracy'', Slim_metrics, Streaming_accuracy),
                  (''Precision'', Slim_metrics, Streaming_precision),
                  (''Recall'', Slim_metrics, Streaming_recall),
                  (''Recall_5'', Slim_metrics, Streaming_recall_at_k 5)]
            else [(''Accuracy'', Local_metrics, Streaming_accuracy),
                  (''Precision'', Local_metrics, Streaming_precision),
                  (''Recall'', Local_metrics, Streaming_recall),
                  (''F1_score'', Local_metrics, F1_score),
                  (''Auc_ROC'', Local_metrics, Streaming_auc ROC),
                  (''Auc_PR'', Local_metrics, Streaming_auc PR),
                  (''TP'', Local_metrics, Streaming_true_positives),
                  (''TN'', Local_metrics, Streaming_true_negatives),
                  (''FP'', Local_metrics, Streaming_false_positives),
                  (''FN'', Local_metrics, Streaming_false_negatives)])"
    by (simp only: ms define_metrics_functions)
  have "map (\<lambda>(name, m). m_predictions m) (ev_metrics ev) =
            (if 2 < num_classes (ev_dataset ev)
             then [Argmax lg 1, Argmax lg 1, Argmax lg 1, lg]
             else replicate 10 (Argmax lg 1))"
    unfolding ms define_metrics_predictions by (simp add: numeral_eq_Suc)
  then have p: "\<exists>logits. map (\<lambda>(name, m). m_predictions m) (ev_metrics ev) =
            (if 2 < num_classes (ev_dataset ev)
             then [Argmax logits 1, Argmax logits 1, Argmax logits 1, logits]
             else replicate 10 (Argmax logits 1))"
    by (rule exI)
  show ?thesis
    by (rule conjI [OF a conjI [OF s1 conjI [OF s2 conjI [OF v conjI [OF u
          conjI [OF op conjI [OF D(10) conjI [OF f p]]]]]]]])
qed

theorem C1_metric_set_by_class_count_witness:
  "(case main sample_collaborators flowers_flags of
      Inl e \<Rightarrow> False
    | Inr ev \<Rightarrow> num_classes (ev_dataset ev) = 5 \<and>
        set (map fst (ev_metrics ev)) = {''Accuracy'', ''Precision'', ''Recall'', ''Recall_5''} \<and>
        length (eo_eval_op (ev_call ev)) = 4) \<and>
   (case main sample_collaborators (snd (entry_block dog_flags)) of
      Inl e \<Rightarrow> False
    | Inr ev \<Rightarrow> num_classes (ev_dataset ev) = 2 \<and>
        set (map fst (ev_metrics ev)) =
          {''Accuracy'', ''Precision'', ''Recall'', ''F1_score'', ''Auc_ROC'', ''Auc_PR'',
           ''TP'', ''TN'', ''FP'', ''FN''} \<and>
        length (eo_eval_op (ev_call ev)) = 10)"
proof -
  obtain ev1 where h1: "main sample_collaborators flowers_flags = Inr ev1"
    using flowers_run by blast
  obtain ev2 where h2: "main sample_collaborators (snd (entry_block dog_flags)) = Inr ev2"
    using dog_main_run by blast
  note c1 = C1_metric_set_by_class_count [OF h1]
  note c2 = C1_metric_set_by_class_count [OF h2]
  have ds1: "ev_dataset ev1 = flowers"
    using c1 [THEN conjunct1]
    by (auto simp: sample_collaborators_def flowers_flags_def default_flags_def)
  have ds2: "ev_dataset ev2 = dog_vs_cat"
    using c2 [THEN conjunct1]
    by (auto simp: sample_collaborators_def dog_flags_def default_flags_def entry_block_def)
  have n1: "2 < num_classes (ev_dataset ev1)" and n1': "num_classes (ev_dataset ev1) = 5"
    by (simp_all add: ds1 flowers_def)
  have n2: "num_classes (ev_dataset ev2) \<le> 2" and n2': "num_classes (ev_dataset ev2) = 2"
    by (simp_all add: ds2 dog_vs_cat_def)
  note m1 = c1 [THEN conjunct2, THEN conjunct1, THEN mp, OF n1]
  note m2 = c2 [THEN conjunct2, THEN conjunct2, THEN conjunct1, THEN mp, OF n2]
  note o1 = c1 [THEN conjunct2, THEN conjunct2, THEN conjunct2, THEN conjunct2,
                THEN conjunct2, THEN conjunct1]
  note o2 = c2 [THEN conjunct2, THEN conjunct2, THEN conjunct2, THEN conjunct2,
                THEN conjunct2, THEN conjunct1]
  have e1: "length (eo_eval_op (ev_call ev1)) = 4"
    by (simp only: o1 m1 [THEN conjunct2] length_map)
  have e2: "length (eo_eval_op (ev_call ev2)) = 10"
    by (simp only: o2 m2 [THEN conjunct2] length_map)
  show ?thesis
    by (simp only: h1 h2 sum.case n1' n2' m1 [THEN conjunct1] m2 [THEN conjunct1] e1 e2 simp_thms)
qed










text \<open>
  Claim C6. The first statement of \<open>main\<close> raises the \<open>ValueError\<close> exactly when
  \<open>dataset_dir\<close> is \<open>None\<close> or empty; then \<open>main\<close> returns that error whatever the
  collaborators are. When a dataset directory is supplied the check passes, and the
  outcome of \<open>main\<close> is the outcome of the statements after the check.
\<close>

theorem C6_dataset_dir_precondition:
  "(check_dataset_dir F =
       Inl (ValueError ''You must supply the dataset directory with --dataset_dir'')
     \<longleftrightarrow> dataset_dir F = None \<or> dataset_dir F = Some []) \<and>
   (dataset_dir F = None \<or> dataset_dir F = Some [] \<longrightarrow>
      main env F = Inl (ValueError ''You must supply the dataset directory with --dataset_dir'')) \<and>
   (\<forall>dir. dataset_dir F = Some dir \<and> dir \<noteq> [] \<longrightarrow>
      check_dataset_dir F = Inr dir \<and> main env F = main_body env F dir)"
  by (auto simp: main_def check_dataset_dir_def split: option.splits)

theorem C6_dataset_dir_precondition_witness:
  "main sample_collaborators default_flags =
     Inl (ValueError ''You must supply the dataset directory with --dataset_dir'') \<and>
   main sample_collaborators (default_flags\<lparr>dataset_dir := Some []\<rparr>) =
     Inl (ValueError ''You must supply the dataset directory with --dataset_dir'') \<and>
   check_dataset_dir flowers_flags = Inr ''/data/flowers'' \<and>
   main sample_collaborators flowers_flags =
     main_body sample_collaborators flowers_flags ''/data/flowers'' \<and>
   \<not> isl (main sample_collaborators flowers_flags)"
proof -
  have a: "dataset_dir default_flags = None \<or> dataset_dir default_flags = Some []"
    by (simp add: default_flags_def)
  have b: "dataset_dir (default_flags\<lparr>dataset_dir := Some []\<rparr>) = None \<or>
           dataset_dir (default_flags\<lparr>dataset_dir := Some []\<rparr>) = Some []"
    by simp
  have c: "dataset_dir flowers_flags = Some ''/data/flowers'' \<and> ''/data/flowers'' \<noteq> []"
    by (simp add: flowers_flags_def)
  note t1 = C6_dataset_dir_precondition [of default_flags sample_collaborators,
              THEN conjunct2, THEN conjunct1, THEN mp, OF a]
  note t2 = C6_dataset_dir_precondition [of "default_flags\<lparr>dataset_dir := Some []\<rparr>"
              sample_collaborators, THEN conjunct2, THEN conjunct1, THEN mp, OF b]
  note t3 = C6_dataset_dir_precondition [of flowers_flags sample_collaborators,
              THEN conjunct2, THEN conjunct2, THEN spec, THEN mp, OF c]
  obtain ev where h: "main sample_collaborators flowers_flags = Inr ev"
    using flowers_run by blast
  have d: "\<not> isl (main sample_collaborators flowers_flags)" by (simp only: h sum.disc simp_thms)
  note t3a = t3 [THEN conjunct1]
  note t3b = t3 [THEN conjunct2]
  show ?thesis using t1 t2 t3a t3b d by (intro conjI)
qed

lemma entry_block_Some:
  "data_path F = Some p \<Longrightarrow>
   entry_block F =
     (Inr (), if str_in ''dog'' p
              then (case output_path F of
                      None \<Rightarrow> F\<lparr>dataset_dir := Some p\<rparr>
                    | Some q \<Rightarrow> F\<lparr>dataset_dir := Some p, eval_dir := Some q\<rparr>)
                   \<lparr>dataset_name := ''dog-vs-cat'', dataset_split_name := ''validation'',
                    model_name := ''inception_v3''\<rparr>
              else (case output_path F of
                      None \<Rightarrow> F\<lparr>dataset_dir := Some p\<rparr>
                    | Some q \<Rightarrow> F\<lparr>dataset_dir := Some p, eval_dir := Some q\<rparr>))"
  by (simp add: entry_block_def Let_def split: option.splits)

lemma entry_block_None:
  "data_path F = None \<Longrightarrow>
   entry_block F =
     (Inl (TypeError ''argument of type 'NoneType' is not iterable''),
      case output_path F of None \<Rightarrow> F | Some q \<Rightarrow> F\<lparr>eval_dir := Some q\<rparr>)"
  by (simp add: entry_block_def Let_def split: option.splits)

text \<open>
  Claim C7. After the entry-point block, \<open>dataset_dir\<close> is \<open>data_path\<close> when that is
  supplied and \<open>eval_dir\<close> is \<open>output_path\<close> when that is supplied (unchanged otherwise);
  the override of \<open>eval_dir\<close> is in place even when the test of the special case raises,
  so the overrides come first. When \<open>data_path\<close> is supplied the block does not raise; if
  \<open>dog\<close> occurs in \<open>data_path\<close> as a substring, the dataset name, the split name and the
  model name are forced to \<open>dog-vs-cat\<close>, \<open>validation\<close> and \<open>inception_v3\<close>, and
  otherwise they are left as they were.
\<close>

theorem C7_entry_block_overrides:
  "(\<forall>p. data_path F = Some p \<longrightarrow> dataset_dir (snd (entry_block F)) = Some p) \<and>
   (\<forall>q. output_path F = Some q \<longrightarrow> eval_dir (snd (entry_block F)) = Some q) \<and>
   (data_path F = None \<longrightarrow> dataset_dir (snd (entry_block F)) = dataset_dir F) \<and>
   (output_path F = None \<longrightarrow> eval_dir (snd (entry_block F)) = eval_dir F) \<and>
   (\<forall>p. data_path F = Some p \<and> (\<exists>a b. p = a @ ''dog'' @ b) \<longrightarrow>
      fst (entry_block F) = Inr () \<and>
      dataset_name (snd (entry_block F)) = ''dog-vs-cat'' \<and>
      dataset_split_name (snd (entry_block F)) = ''validation'' \<and>
      model_name (snd (entry_block F)) = ''inception_v3'') \<and>
   (\<forall>p. data_path F = Some p \<and> \<not> (\<exists>a b. p = a @ ''dog'' @ b) \<longrightarrow>
      fst (entry_block F) = Inr () \<and>
      dataset_name (snd (entry_block F)) = dataset_name F \<and>
      dataset_split_name (snd (entry_block F)) = dataset_split_name F \<and>
      model_name (snd (entry_block F)) = model_name F)"
proof (cases "data_path F")
  case None
  show ?thesis
    by (simp add: None entry_block_None split: option.splits)
next
  case (Some p)
  show ?thesis
    unfolding str_in_iff [symmetric]
    by (simp add: Some entry_block_Some split: option.splits)
qed

theorem C7_entry_block_overrides_witness:
  "dataset_dir (snd (entry_block dog_out_flags)) = Some ''/data/dog-vs-cat'' \<and>
   eval_dir (snd (entry_block dog_out_flags)) = Some ''/out'' \<and>
   (fst (entry_block dog_out_flags) = Inr () \<and>
    dataset_name (snd (entry_block dog_out_flags)) = ''dog-vs-cat'' \<and>
    dataset_split_name (snd (entry_block dog_out_flags)) = ''validation'' \<and>
    model_name (snd (entry_block dog_out_flags)) = ''inception_v3'') \<and>
   (fst (entry_block flowers_path_flags) = Inr () \<and>
    dataset_name (snd (entry_block flowers_path_flags)) = dataset_name flowers_path_flags \<and>
    dataset_split_name (snd (entry_block flowers_path_flags)) =
      dataset_split_name flowers_path_flags \<and>
    model_name (snd (entry_block flowers_path_flags)) = model_name flowers_path_flags) \<and>
   eval_dir (snd (entry_block out_only_flags)) = Some ''/out'' \<and>
   isl (fst (entry_block out_only_flags))"
proof -
  have dp1: "data_path dog_out_flags = Some ''/data/dog-vs-cat''"
    by (simp add: dog_out_flags_def dog_flags_def)
  have op1: "output_path dog_out_flags = Some ''/out''"
    by (simp add: dog_out_flags_def)
  have ex1: "\<exists>a b. ''/data/dog-vs-cat'' = a @ ''dog'' @ b"
    unfolding str_in_iff [symmetric] by simp
  have dp2: "data_path flowers_path_flags = Some ''/data/flowers''"
    by (simp add: flowers_path_flags_def)
  have nex2: "\<not> (\<exists>a b. ''/data/flowers'' = a @ ''dog'' @ b)"
    unfolding str_in_iff [symmetric] by simp
  have op3: "output_path out_only_flags = Some ''/out''"
    by (simp add: out_only_flags_def)
  have r3: "isl (fst (entry_block out_only_flags))"
    by (simp add: out_only_flags_def default_flags_def entry_block_def)
  note w1 = C7_entry_block_overrides [of dog_out_flags, THEN conjunct1, THEN spec, THEN mp, OF dp1]
  note w2 = C7_entry_block_overrides [of dog_out_flags, THEN conjunct2, THEN conjunct1,
              THEN spec, THEN mp, OF op1]
  note w5 = C7_entry_block_overrides [of dog_out_flags, THEN conjunct2, THEN conjunct2,
              THEN conjunct2, THEN conjunct2, THEN conjunct1, THEN spec, THEN mp,
              OF conjI [OF dp1 ex1]]
  note w6 = C7_entry_block_overrides [of flowers_path_flags, THEN conjunct2, THEN conjunct2,
              THEN conjunct2, THEN conjunct2, THEN conjunct2, THEN spec, THEN mp,
              OF conjI [OF dp2 nex2]]
  note w7 = C7_entry_block_overrides [of out_only_flags, THEN conjunct2, THEN conjunct1,
              THEN spec, THEN mp, OF op3]
  show ?thesis
    by (rule conjI [OF w1 conjI [OF w2 conjI [OF w5 conjI [OF w6 conjI [OF w7 r3]]]]])
qed

text \<open>
  Claim C8. In a run of \<open>main\<close> that returns, the label tensor of every metric holds the
  labels the provider read, each reduced by \<open>labels_offset\<close>, and the network function
  was requested from the factory with the dataset's class count minus \<open>labels_offset\<close>.
\<close>

theorem C8_labels_offset:
  assumes "main env F = Inr ev"
  shows "(\<forall>m \<in> snd ` set (ev_metrics ev). \<forall>raw.
            label_values raw (m_labels m) = Some (map (\<lambda>l. l - labels_offset F) raw)) \<and>
         ev_metrics ev \<noteq> [] \<and>
         nf_num_classes (ev_network_fn ev) = num_classes (ev_dataset ev) - labels_offset F \<and>
         get_network_fn env (model_name F) (num_classes (ev_dataset ev) - labels_offset F) False
           = Inr (default_image_size (ev_network_fn ev))"
proof -
  from assms obtain dir where dir: "main_body env F dir = Inr ev"
    using main_InrD by blast
  note D = main_body_InrD [OF dir]
  have a: "\<forall>m \<in> snd ` set (ev_metrics ev). \<forall>raw.
            label_values raw (m_labels m) = Some (map (\<lambda>l. l - labels_offset F) raw)"
  proof (intro ballI allI)
    fix m raw
    assume "m \<in> snd ` set (ev_metrics ev)"
    then have "m_labels m =
          Squeeze (Batch (Subtract (Provider_get ''label'') (labels_offset F))
                   (batch_size F) (num_preprocessing_threads F) (5 * batch_size F))"
      using main_body_labels [OF dir] by blast
    then show "label_values raw (m_labels m) = Some (map (\<lambda>l. l - labels_offset F) raw)"
      by simp
  qed
  have "map fst (ev_metrics ev) \<noteq> []"
    unfolding D(11) define_metrics_names by simp
  then have b: "ev_metrics ev \<noteq> []" by auto
  show ?thesis using a b D(3) D(2) by (intro conjI)
qed

lemma offset_run: "\<exists>ev. main sample_collaborators offset_flags = Inr ev"
  by (simp add: offset_flags_def sample_defs main_defs)

theorem C8_labels_offset_witness:
  "(case main sample_collaborators offset_flags of
      Inl e \<Rightarrow> False
    | Inr ev \<Rightarrow>
        list_all (\<lambda>m. label_values [1, 3, 5] (m_labels m) = Some [0, 2, 4])
          (map snd (ev_metrics ev)) \<and>
        ev_metrics ev \<noteq> [] \<and>
        nf_num_classes (ev_network_fn ev) = 4)"
proof -
  obtain ev where h: "main sample_collaborators offset_flags = Inr ev"
    using offset_run by blast
  note c = C8_labels_offset [OF h]
  have ds: "ev_dataset ev = flowers"
    using h
    by (auto dest!: main_InrD main_body_InrD(1)
             simp: sample_collaborators_def offset_flags_def flowers_flags_def default_flags_def)
  have off: "labels_offset offset_flags = 1" by (simp add: offset_flags_def)
  have a: "list_all (\<lambda>m. label_values [1, 3, 5] (m_labels m) = Some [0, 2, 4])
          (map snd (ev_metrics ev))"
    unfolding list_all_iff
  proof
    fix m assume "m \<in> set (map snd (ev_metrics ev))"
    then have "m \<in> snd ` set (ev_metrics ev)" by simp
    with c have "label_values [1, 3, 5] (m_labels m) =
        Some (map (\<lambda>l. l - labels_offset offset_flags) [1, 3, 5])"
      by blast
    then show "label_values [1, 3, 5] (m_labels m) = Some [0, 2, 4]"
      by (simp add: off)
  qed
  have n: "nf_num_classes (ev_network_fn ev) = 4"
    using c [THEN conjunct2, THEN conjunct2, THEN conjunct1]
    by (simp add: ds off flowers_def)
  note b = c [THEN conjunct2, THEN conjunct1]
  show ?thesis
    unfolding h sum.case using a b n by (intro conjI)
qed

text \<open>
  Claim C9. When \<open>data_path\<close> is \<open>None\<close> the script ends with the \<open>TypeError\<close> of the
  membership test, whatever the other flags and the collaborators are: \<open>main\<close> and its
  check of \<open>dataset_dir\<close> are not reached. So every run of the script that returns has
  \<open>data_path\<close> supplied.
\<close>

theorem C9_missing_data_path_raises:
  "(data_path F = None \<longrightarrow>
      script env F = Inl (TypeError ''argument of type 'NoneType' is not iterable'')) \<and>
   (\<forall>ev. script env F = Inr ev \<longrightarrow> data_path F \<noteq> None)"
proof -
  have a: "data_path F = None \<longrightarrow>
      script env F = Inl (TypeError ''argument of type 'NoneType' is not iterable'')"
    by (simp add: script_def entry_block_None)
  then show ?thesis by auto
qed

theorem C9_missing_data_path_raises_witness:
  "script sample_collaborators flowers_flags =
     Inl (TypeError ''argument of type 'NoneType' is not iterable'') \<and>
   \<not> isl (main sample_collaborators flowers_flags) \<and>
   script sample_collaborators default_flags =
     Inl (TypeError ''argument of type 'NoneType' is not iterable'') \<and>
   main sample_collaborators default_flags =
     Inl (ValueError ''You must supply the dataset directory with --dataset_dir'') \<and>
   \<not> isl (script sample_collaborators dog_flags) \<and>
   data_path dog_flags \<noteq> None"
proof -
  have n1: "data_path flowers_flags = None" by (simp add: flowers_flags_def default_flags_def)
  have n2: "data_path default_flags = None" by (simp add: default_flags_def)
  note a = C9_missing_data_path_raises [of flowers_flags sample_collaborators,
             THEN conjunct1, THEN mp, OF n1]
  note b = C9_missing_data_path_raises [of default_flags sample_collaborators,
             THEN conjunct1, THEN mp, OF n2]
  obtain ev where h: "main sample_collaborators flowers_flags = Inr ev"
    using flowers_run by blast
  have c: "\<not> isl (main sample_collaborators flowers_flags)" by (simp only: h sum.disc simp_thms)
  have d: "main sample_collaborators default_flags =
     Inl (ValueError ''You must supply the dataset directory with --dataset_dir'')"
    by (simp add: main_def check_dataset_dir_def default_flags_def)
  obtain ev2 where h2: "script sample_collaborators dog_flags = Inr ev2"
    using dog_run by blast
  have e: "\<not> isl (script sample_collaborators dog_flags)" by (simp only: h2 sum.disc simp_thms)
  note f = C9_missing_data_path_raises [of dog_flags sample_collaborators,
             THEN conjunct2, THEN spec, THEN mp, OF h2]
  show ?thesis using a c b d e f by (intro conjI)
qed


section \<open>Properties of the export pipeline\<close>

lemma restore_session_own:
  "n \<in> set (map v_name (g_variables g)) \<Longrightarrow>
   restore_session (saveable_variables g) ck n = ck n"
proof -
  assume n: "n \<in> set (map v_name (g_variables g))"
  have "map_of (map (\<lambda>(key, v). (v, key)) (map (\<lambda>v. (v_name v, v_name v)) vars)) n = Some n"
    if "n \<in> set (map v_name vars)" for vars :: "variable list"
    using that by (induction vars) auto
  from this [OF n] show ?thesis by (simp add: restore_session_def saveable_variables_def)
qed

lemma restore_session_ema:
  assumes "distinct (map v_name vars)" and "v \<in> set vars"
  shows "restore_session (ema_variables_to_restore vars) ck (v_name v) =
         ck (if v_trainable v then average_name (v_name v) else v_name v)"
proof -
  have "map_of (map (\<lambda>(key, v). (v, key)) (ema_variables_to_restore vars)) (v_name v) =
        Some (if v_trainable v then average_name (v_name v) else v_name v)"
    using assms
  proof (induction vars)
    case Nil
    then show ?case by simp
  next
    case (Cons u vars)
    show ?case
    proof (cases "u = v")
      case True
      then show ?thesis by (simp add: ema_variables_to_restore_def)
    next
      case False
      with Cons.prems have v: "v \<in> set vars" by simp
      with Cons.prems have "v_name u \<noteq> v_name v" by auto
      moreover have "map_of (map (\<lambda>(key, v). (v, key)) (ema_variables_to_restore vars)) (v_name v) =
        Some (if v_trainable v then average_name (v_name v) else v_name v)"
        using Cons.IH Cons.prems v by simp
      ultimately show ?thesis by (simp add: ema_variables_to_restore_def)
    qed
  qed
  then show ?thesis by (simp add: restore_session_def)
qed

lemma new_saver_Inr:
  "new_saver var_list ver = Inr sd \<Longrightarrow>
   var_list \<noteq> [] \<and> sd_var_list sd = var_list \<and> sd_write_version sd = ver"
  by (auto simp: new_saver_def split: if_splits)

lemma saveable_variables_names:
  "map snd (saveable_variables g) = map v_name (g_variables g)"
  "saveable_variables g = [] \<longleftrightarrow> g_variables g = []"
  by (simp_all add: saveable_variables_def comp_def)

lemma ema_variables_names:
  "map snd (ema_variables_to_restore vars) = map v_name vars"
  by (simp add: ema_variables_to_restore_def comp_def)

lemma saver_restore_snd:
  "snd (saver_restore vl p w) = w\<lparr>calls := calls w @ [Restore p]\<rparr>"
  by (simp add: saver_restore_def Let_def split: option.splits prod.splits)

lemma saver_restore_Inr:
  "saver_restore vl p w = (Inr sess, w1) \<Longrightarrow>
   w1 = w\<lparr>calls := calls w @ [Restore p]\<rparr> \<and>
   (\<exists>ver ck. checkpoints w p = Some (ver, ck) \<and> sess = restore_session vl ck \<and>
      list_all (\<lambda>(key, v). ck key \<noteq> None) vl)"
  by (auto simp: saver_restore_def Let_def split: option.splits prod.splits if_splits)

lemma saver_save_Inr:
  "saver_save sd sess p w = (Inr u, w1) \<Longrightarrow>
   w1 = w\<lparr>calls := calls w @ [Save p],
          checkpoints := (checkpoints w)
            (p \<mapsto> (sd_write_version sd,
                    \<lambda>n. if n \<in> set (map snd (sd_var_list sd)) then sess n else None))\<rparr> \<and>
   list_all (\<lambda>n. sess n \<noteq> None) (map snd (sd_var_list sd))"
  by (auto simp: saver_save_def Let_def split: if_splits)

lemma saver_save_snd_frame:
  "graph_files (snd (saver_save sd sess p w)) = graph_files w"
  "saved_models (snd (saver_save sd sess p w)) = saved_models w"
  "default_graph (snd (saver_save sd sess p w)) = default_graph w"
  "calls (snd (saver_save sd sess p w)) = calls w @ [Save p]"
  by (simp_all add: saver_save_def Let_def)

lemma replace_Inr:
  assumes "replace_variable_values_with_moving_averages g cur new w = (Inr u, w1)"
  shows "\<exists>ver raw.
     checkpoints w cur = Some (ver, raw) \<and>
     list_all (\<lambda>(key, v). raw key \<noteq> None) (ema_variables_to_restore (g_variables g)) \<and>
     w1 = w\<lparr>calls := calls w @ [Restore cur, Save new],
            checkpoints := (checkpoints w)
              (new \<mapsto> (V2, \<lambda>n. if n \<in> set (map v_name (g_variables g))
                                 then restore_session (ema_variables_to_restore (g_variables g)) raw n
                                 else None))\<rparr>"
proof -
  from assms obtain rs sess w0 sd where
    m: "new_saver (ema_variables_to_restore (g_variables g)) V2 = Inr rs" and
    r: "saver_restore (sd_var_list rs) cur w = (Inr sess, w0)" and
    n: "new_saver (saveable_variables g) V2 = Inr sd" and
    s: "saver_save sd sess new w0 = (Inr u, w1)"
    by (auto simp: replace_variable_values_with_moving_averages_def Let_def
             split: prod.splits sum.splits)
  note M = new_saver_Inr [OF m]
  from saver_restore_Inr [OF r] M obtain ver raw where
    w0: "w0 = w\<lparr>calls := calls w @ [Restore cur]\<rparr>" and
    ck: "checkpoints w cur = Some (ver, raw)" and
    sess: "sess = restore_session (ema_variables_to_restore (g_variables g)) raw" and
    all: "list_all (\<lambda>(key, v). raw key \<noteq> None) (ema_variables_to_restore (g_variables g))"
    by auto
  note N = new_saver_Inr [OF n]
  from saver_save_Inr [OF s] have
    "w1 = w0\<lparr>calls := calls w0 @ [Save new],
          checkpoints := (checkpoints w0)
            (new \<mapsto> (sd_write_version sd,
                    \<lambda>n. if n \<in> set (map snd (sd_var_list sd)) then sess n else None))\<rparr>"
    by blast
  then have "w1 = w\<lparr>calls := calls w @ [Restore cur, Save new],
            checkpoints := (checkpoints w)
              (new \<mapsto> (V2, \<lambda>n. if n \<in> set (map v_name (g_variables g))
                                 then restore_session (ema_variables_to_restore (g_variables g)) raw n
                                 else None))\<rparr>"
    using N unfolding w0 sess by (simp add: saveable_variables_names)
  with ck all show ?thesis by blast
qed

lemma select_checkpoint_ma:
  assumes "select_checkpoint (Some True) trained w = (Inr (ver, c), w1)"
    and vars: "g_variables (default_graph w) = vars"
  shows "c = temp_names w (temp_next w) \<and>
     default_graph w1 = default_graph w \<and>
     op_raises w1 = op_raises w \<and>
     graph_files w1 = graph_files w \<and>
     saved_models w1 = saved_models w \<and>
     calls w1 = calls w @ [Restore trained, Save c] \<and>
     (\<exists>rv raw.
        checkpoints w trained = Some (rv, raw) \<and>
        list_all (\<lambda>(key, v). raw key \<noteq> None) (ema_variables_to_restore vars) \<and>
        checkpoints w1 = (checkpoints w)
          (c \<mapsto> (V2, \<lambda>n. if n \<in> set (map v_name vars)
                         then restore_session (ema_variables_to_restore vars) raw n
                         else None)))"
proof (cases "os_path_isfile w trained")
  case True
  with assms obtain u where
    "replace_variable_values_with_moving_averages (default_graph w) trained
       (temp_names w (temp_next w)) (w\<lparr>temp_next := Suc (temp_next w)\<rparr>) = (Inr u, w1)"
    and "c = temp_names w (temp_next w)"
    by (auto simp: select_checkpoint_def named_temporary_file_name_def
             split: prod.splits sum.splits)
  from replace_Inr [OF this(1)] this(2) show ?thesis unfolding vars by auto
next
  case False
  with assms obtain u where
    "replace_variable_values_with_moving_averages (default_graph w) trained
       (temp_names w (temp_next w))
       (w\<lparr>temp_next := Suc (temp_next w),
          directories := directories w @ [temp_names w (temp_next w)]\<rparr>) = (Inr u, w1)"
    and "c = temp_names w (temp_next w)"
    by (auto simp: select_checkpoint_def mkdtemp_def split: prod.splits sum.splits)
  from replace_Inr [OF this(1)] this(2) show ?thesis unfolding vars by auto
qed

lemma select_checkpoint_plain:
  "uma \<noteq> Some True \<Longrightarrow> select_checkpoint uma trained w = (Inr (V2, trained), w)"
  by (simp add: select_checkpoint_def)

lemma write_graph_and_checkpoint_Inr:
  assumes "write_graph_and_checkpoint gd mp sd c w = (Inr u, w1)"
  shows "\<exists>ver ck.
     checkpoints w c = Some (ver, ck) \<and>
     list_all (\<lambda>(key, v). ck key \<noteq> None) (sd_var_list sd) \<and>
     w1 = w\<lparr>calls := calls w @ [Restore c, Save mp],
            checkpoints := (checkpoints w)
              (mp \<mapsto> (sd_write_version sd,
                       \<lambda>n. if n \<in> set (map snd (sd_var_list sd))
                            then restore_session (sd_var_list sd) ck n else None))\<rparr>"
proof -
  from assms obtain sess w0 where
    r: "saver_restore (sd_var_list sd) c w = (Inr sess, w0)" and
    s: "saver_save sd sess mp w0 = (Inr u, w1)"
    by (auto simp: write_graph_and_checkpoint_def split: prod.splits sum.splits)
  from saver_restore_Inr [OF r] obtain ver ck where
    w0: "w0 = w\<lparr>calls := calls w @ [Restore c]\<rparr>" and
    ck: "checkpoints w c = Some (ver, ck)" and
    sess: "sess = restore_session (sd_var_list sd) ck" and
    all: "list_all (\<lambda>(key, v). ck key \<noteq> None) (sd_var_list sd)"
    by blast
  from saver_save_Inr [OF s, unfolded w0 sess] have
    "w1 = w\<lparr>calls := calls w @ [Restore c, Save mp],
            checkpoints := (checkpoints w)
              (mp \<mapsto> (sd_write_version sd,
                       \<lambda>n. if n \<in> set (map snd (sd_var_list sd))
                            then restore_session (sd_var_list sd) ck n else None))\<rparr>"
    by simp
  with ck all show ?thesis by blast
qed

lemma convert_Inr:
  "convert_variables_to_constants sess gd names = Inr fg \<Longrightarrow>
   g_variables fg = [] \<and> g_collections fg = [] \<and>
   set (g_nodes fg) \<subseteq> set (g_nodes gd)"
  by (auto simp: convert_variables_to_constants_def Let_def split: option.splits if_splits)

lemma freeze_Inr:
  assumes "freeze_graph_with_def_protos gd sd c names og w = (Inr fg, w1)" and "og \<noteq> []"
  shows "\<exists>ver ck.
     checkpoints w c = Some (ver, ck) \<and> names \<noteq> [] \<and>
     list_all (\<lambda>(key, v). ck key \<noteq> None) (sd_var_list sd) \<and>
     convert_variables_to_constants (restore_session (sd_var_list sd) ck) gd
       (comma_split (filter (\<lambda>c. c \<noteq> CHR '' '') names)) = Inr fg \<and>
     w1 = w\<lparr>calls := calls w @ [Freeze c names og],
            default_graph := import_graph_def gd (default_graph w),
            graph_files := (graph_files w)(og \<mapsto> fg)\<rparr>"
  using assms
  by (auto simp: freeze_graph_with_def_protos_def Let_def
           split: option.splits if_splits sum.splits)

lemma priv_write_saved_model_Inr:
  assumes "priv_write_saved_model p trained inputs outputs w = (Inr u, w1)"
  shows "\<exists>ver ck.
     checkpoints w trained = Some (ver, ck) \<and> g_variables (default_graph w) \<noteq> [] \<and>
     saved_models w p = None \<and>
     w1 = w\<lparr>calls := calls w @ [Restore trained, Builder_save p],
            saved_models := (saved_models w)
              (p \<mapsto> \<lparr> sm_graph = default_graph w,
                       sm_variables = (\<lambda>n. if n \<in> set (map v_name (g_variables (default_graph w)))
                                            then ck n else None),
                       sm_tags = [SERVING],
                       sm_signature_def_map =
                         [(DEFAULT_SERVING_SIGNATURE_DEF_KEY, serving_signature inputs outputs)] \<rparr>)\<rparr>"
proof -
  from assms obtain sd sess w0 where
    n: "new_saver (saveable_variables (default_graph w)) V2 = Inr sd" and
    r: "saver_restore (sd_var_list sd) trained w = (Inr sess, w0)" and
    b: "builder_save p (default_graph w0) sess [SERVING]
          [(DEFAULT_SERVING_SIGNATURE_DEF_KEY, serving_signature inputs outputs)] w0 = (Inr u, w1)"
    by (auto simp: priv_write_saved_model_def split: prod.splits sum.splits)
  note N = new_saver_Inr [OF n]
  from saver_restore_Inr [OF r] obtain ver ck where
    w0: "w0 = w\<lparr>calls := calls w @ [Restore trained]\<rparr>" and
    ck: "checkpoints w trained = Some (ver, ck)" and
    sess: "sess = restore_session (sd_var_list sd) ck"
    by blast
  have own: "(\<lambda>n. if n \<in> set (map v_name (g_variables (default_graph w))) then sess n else None) =
             (\<lambda>n. if n \<in> set (map v_name (g_variables (default_graph w))) then ck n else None)"
    using restore_session_own [of _ "default_graph w" ck] N
    by (auto simp: sess fun_eq_iff)
  have ne: "g_variables (default_graph w) \<noteq> []"
    using N by (simp add: saveable_variables_names)
  from b have none: "saved_models w p = None"
    by (auto simp: builder_save_def Let_def w0 split: option.splits)
  from b none have "w1 = w\<lparr>calls := calls w @ [Restore trained, Builder_save p],
            saved_models := (saved_models w)
              (p \<mapsto> \<lparr> sm_graph = default_graph w,
                       sm_variables = (\<lambda>n. if n \<in> set (map v_name (g_variables (default_graph w)))
                                            then sess n else None),
                       sm_tags = [SERVING],
                       sm_signature_def_map =
                         [(DEFAULT_SERVING_SIGNATURE_DEF_KEY, serving_signature inputs outputs)] \<rparr>)\<rparr>"
    by (auto simp: builder_save_def Let_def w0 split: option.splits)
  with own ck ne none show ?thesis by auto
qed

text \<open>Building the graph changes the default graph only.\<close>

lemma tf_op_Inr:
  "tf_op t w = (Inr x, w1) \<Longrightarrow>
   x = t \<and> op_raises w t = None \<and>
   w1 = w\<lparr>default_graph := (default_graph w)\<lparr>g_nodes := g_nodes (default_graph w) @ [t]\<rparr>\<rparr>"
  by (auto simp: tf_op_def split: option.splits)

lemma tf_op_frame:
  "tf_op t w = (r, w1) \<Longrightarrow> \<exists>g. w1 = w\<lparr>default_graph := g\<rparr>"
  by (auto simp: tf_op_def split: option.splits intro: exI [of _ "default_graph w"])

lemma model_preprocess_frame:
  "model_preprocess image0 h wd cf cc gray w = (r, w1) \<Longrightarrow> \<exists>g. w1 = w\<lparr>default_graph := g\<rparr>"
  by (auto simp: model_preprocess_def
           split: if_splits prod.splits sum.splits dest!: tf_op_frame
           intro: exI [of _ "default_graph w"])

lemma model_postprocess_frame:
  "model_postprocess model images w = (r, w1) \<Longrightarrow> \<exists>g. w1 = w\<lparr>default_graph := g\<rparr>"
  by (auto simp: model_postprocess_def split: prod.splits sum.splits dest!: tf_op_frame)

lemma model_postprocess_Inr:
  "model_postprocess model images w = (Inr post, w1) \<Longrightarrow>
   \<exists>logits classes. post = [(''logits'', logits), (''classes'', classes)]"
  by (auto simp: model_postprocess_def split: prod.splits sum.splits)

lemma priv_add_output_tensor_nodes_frame:
  "priv_add_output_tensor_nodes post coll w = (r, w1) \<Longrightarrow> \<exists>g. w1 = w\<lparr>default_graph := g\<rparr>"
  by (auto simp: priv_add_output_tensor_nodes_def Let_def
           split: option.splits prod.splits sum.splits dest!: tf_op_frame
           intro: exI [of _ "default_graph w"])

lemma priv_add_output_tensor_nodes_Inr:
  "priv_add_output_tensor_nodes post coll w = (Inr outputs, w1) \<Longrightarrow>
   \<exists>c l. outputs = [(''classes'', Tf_identity c ''classes''), (''logits'', Tf_identity l ''logits'')]"
  by (auto simp: priv_add_output_tensor_nodes_def Let_def
           split: option.splits prod.splits sum.splits dest!: tf_op_Inr)

lemma priv_get_outputs_from_inputs_frame:
  "priv_get_outputs_from_inputs input_tensors sz model coll w = (r, w1) \<Longrightarrow>
   \<exists>g. w1 = w\<lparr>default_graph := g\<rparr>"
  by (auto simp: priv_get_outputs_from_inputs_def split: prod.splits sum.splits
           dest!: tf_op_frame model_preprocess_frame model_postprocess_frame
                  priv_add_output_tensor_nodes_frame)

lemma priv_get_outputs_from_inputs_Inr:
  "priv_get_outputs_from_inputs input_tensors sz model coll w = (Inr outputs, w1) \<Longrightarrow>
   \<exists>c l. outputs = [(''classes'', Tf_identity c ''classes''), (''logits'', Tf_identity l ''logits'')]"
  by (auto simp: priv_get_outputs_from_inputs_def split: prod.splits sum.splits
           dest!: priv_add_output_tensor_nodes_Inr)

lemma call_placeholder_fn_frame:
  "call_placeholder_fn fn args w = (r, w1) \<Longrightarrow> \<exists>g. w1 = w\<lparr>default_graph := g\<rparr>"
  by (auto simp: call_placeholder_fn_def priv_image_tensor_input_placeholder_def
                 priv_encoded_image_string_tensor_input_placeholder_def Let_def
           split: placeholder_fn.splits option.splits prod.splits sum.splits
           dest!: tf_op_frame intro: exI [of _ "default_graph w"])

lemma call_placeholder_fn_Inr:
  "call_placeholder_fn fn args w = (Inr (ph, images), w1) \<Longrightarrow>
   (fn = Image_tensor_fn \<longrightarrow> (\<exists>sh. ph = Tf_placeholder Uint8 sh ''image_tensor'')) \<and>
   (fn = Encoded_image_string_tensor_fn \<longrightarrow>
      ph = Tf_placeholder String_dtype [None] ''encoded_image_string_tensor'')"
  by (auto simp: call_placeholder_fn_def priv_image_tensor_input_placeholder_def
                 priv_encoded_image_string_tensor_input_placeholder_def Let_def
           split: placeholder_fn.splits option.splits prod.splits sum.splits
           dest!: tf_op_Inr)

lemma build_frame:
  assumes "priv_build_model_graph it sz model shape coll hook w = (r, w1)"
  shows "\<exists>g. w1 = w\<lparr>default_graph := g\<rparr>"
  using assms
  by (auto simp: priv_build_model_graph_def Let_def
           split: option.splits sum.splits prod.splits if_splits
           dest!: call_placeholder_fn_frame priv_get_outputs_from_inputs_frame
           intro: exI [of _ "default_graph w"])

lemma build_Inr:
  assumes "priv_build_model_graph it sz model shape coll hook w = (Inr (outputs, ph), w1)"
  shows "map fst outputs = [''classes'', ''logits'']"
    and "it = ''image_tensor'' \<or> it = ''encoded_image_string_tensor''"
    and "\<exists>d sh. ph = Tf_placeholder d sh it"
    and "\<exists>c l. outputs = [(''classes'', Tf_identity c ''classes''),
                          (''logits'', Tf_identity l ''logits'')]"
  using assms
  by (auto simp: priv_build_model_graph_def input_placeholder_fn_map_def Let_def
      split: if_splits option.splits sum.splits prod.splits
      dest!: call_placeholder_fn_Inr priv_get_outputs_from_inputs_Inr)

text \<open>
  Claim C5. \<open>_build_model_graph\<close> raises \<open>ValueError\<close> and leaves the default graph, and
  everything else, as it was (no placeholder, no tensor) when the input type is neither
  \<open>image_tensor\<close> nor \<open>encoded_image_string_tensor\<close>, and also when an input shape is
  supplied and the input type is not \<open>image_tensor\<close>.
\<close>

theorem C5_build_model_graph_rejects:
  "(it \<noteq> ''image_tensor'' \<and> it \<noteq> ''encoded_image_string_tensor'' \<longrightarrow>
      priv_build_model_graph it sz model shape coll hook w =
        (Inl (ValueError (''Unknown input type: '' @ it)), w)) \<and>
   (\<forall>sh. shape = Some sh \<and> it \<noteq> ''image_tensor'' \<longrightarrow>
      (\<exists>msg. priv_build_model_graph it sz model shape coll hook w = (Inl (ValueError msg), w))) \<and>
   (\<forall>sh. shape = Some sh \<and> it = ''encoded_image_string_tensor'' \<longrightarrow>
      priv_build_model_graph it sz model shape coll hook w =
        (Inl (ValueError ''Can only specify input shape for 'image_tensor' inputs.''), w))"
  by (auto simp: priv_build_model_graph_def input_placeholder_fn_map_def)

lemma select_checkpoint_frame:
  assumes "select_checkpoint uma t w = (r, w1)"
  shows "graph_files w1 = graph_files w" and "saved_models w1 = saved_models w"
    and "default_graph w1 = default_graph w"
    and "\<exists>cs. calls w1 = calls w @ cs \<and> (\<forall>a b d. Freeze a b d \<notin> set cs)"
  using assms
  by (auto simp: select_checkpoint_def replace_variable_values_with_moving_averages_def
        saver_restore_def saver_save_def named_temporary_file_name_def mkdtemp_def Let_def
      split: if_splits option.splits sum.splits prod.splits)

lemma write_graph_and_checkpoint_frame:
  assumes "write_graph_and_checkpoint gd mp sd c w = (r, w1)"
  shows "graph_files w1 = graph_files w" and "saved_models w1 = saved_models w"
    and "default_graph w1 = default_graph w"
    and "\<exists>cs. calls w1 = calls w @ cs \<and> (\<forall>a b d. Freeze a b d \<notin> set cs)"
  using assms
  by (auto simp: write_graph_and_checkpoint_def saver_restore_def saver_save_def Let_def
      split: if_splits option.splits sum.splits prod.splits)

lemma import_graph_def_variables:
  "g_variables (import_graph_def gd g) = g_variables g"
  "g_collections (import_graph_def gd g) = g_collections g"
  "g_constants (import_graph_def gd g) = g_constants g"
  by (simp_all add: import_graph_def_def)

lemma export_additional_cases:
  assumes "export_inference_graph it sz model trained out shape uma coll (Some names) hook w
             = (r, w')"
  shows "\<exists>e. r = Inl e"
    and "graph_files w' = graph_files w"
    and "saved_models w' = saved_models w"
    and "\<exists>cs. calls w' = calls w @ cs \<and> (\<forall>a b d. Freeze a b d \<notin> set cs)"
proof -
  let ?w0 = "make_dirs out w"
  obtain rb w1 where b: "priv_build_model_graph it sz model shape coll hook ?w0 = (rb, w1)"
    by (cases "priv_build_model_graph it sz model shape coll hook ?w0")
  from build_frame [OF b] obtain g where w1: "w1 = ?w0\<lparr>default_graph := g\<rparr>" by blast
  obtain rs w2 where s: "select_checkpoint uma trained w1 = (rs, w2)"
    by (cases "select_checkpoint uma trained w1")
  note S = select_checkpoint_frame [OF s]
  have f0: "graph_files w1 = graph_files w" "saved_models w1 = saved_models w"
    "calls w1 = calls w @ [MakeDirs out]"
    by (simp_all add: w1 make_dirs_def)
  have all: "(\<exists>e. r = Inl e) \<and> graph_files w' = graph_files w \<and>
     saved_models w' = saved_models w \<and>
     (\<exists>cs. calls w' = calls w @ cs \<and> (\<forall>a b d. Freeze a b d \<notin> set cs))"
  proof (cases rb)
    case (Inl e)
    with assms b have "r = Inl e" and "w' = w1"
      by (auto simp: export_inference_graph_def Let_def)
    then show ?thesis using f0 by auto
  next
    case (Inr op)
    obtain outputs ph where op: "op = (outputs, ph)" by (cases op)
    show ?thesis
    proof (cases rs)
      case (Inl e)
      with assms b s Inr op S f0 show ?thesis
        by (auto simp: export_inference_graph_def Let_def)
    next
      case (Inr vc)
      obtain ver c where vc: "vc = (ver, c)" by (cases vc)
      show ?thesis
      proof (cases "new_saver (saveable_variables (default_graph w2)) ver")
        case (Inl e)
        with assms b s \<open>rb = Inr op\<close> op \<open>rs = Inr vc\<close> vc S f0 show ?thesis
          by (auto simp: export_inference_graph_def Let_def)
      next
        case (Inr sd)
        obtain rw w3 where wg: "write_graph_and_checkpoint (as_graph_def (default_graph w2))
            (os_path_join out ''model.ckpt'') sd c w2 = (rw, w3)"
          by (cases "write_graph_and_checkpoint (as_graph_def (default_graph w2))
            (os_path_join out ''model.ckpt'') sd c w2")
        note W = write_graph_and_checkpoint_frame [OF wg]
        have "(\<exists>e. r = Inl e) \<and> w' = w3"
        proof (cases rw)
          case (Inl e)
          with assms b s \<open>rb = Inr op\<close> op \<open>rs = Inr vc\<close> vc Inr wg show ?thesis
            by (auto simp: export_inference_graph_def Let_def)
        next
          case (Inr u)
          with assms b s \<open>rb = Inr op\<close> op \<open>rs = Inr vc\<close> vc
            \<open>new_saver (saveable_variables (default_graph w2)) ver = Inr sd\<close> wg show ?thesis
            by (auto simp: export_inference_graph_def Let_def output_node_names_of_def)
        qed
        moreover have "\<exists>cs. calls w3 = calls w @ cs \<and> (\<forall>a b d. Freeze a b d \<notin> set cs)"
          using S(4) W(4) f0(3) by auto
        ultimately show ?thesis using S W f0 by simp
      qed
    qed
  qed
  from all show "\<exists>e. r = Inl e" by blast
  from all show "graph_files w' = graph_files w" by blast
  from all show "saved_models w' = saved_models w" by blast
  from all show "\<exists>cs. calls w' = calls w @ cs \<and> (\<forall>a b d. Freeze a b d \<notin> set cs)" by blast
qed

lemma export_InrE:
  assumes "export_inference_graph it sz model trained out shape uma coll add hook w = (Inr u, w')"
  obtains outputs ph w1 ver c w2 sd w3 names fg w4 where
    "priv_build_model_graph it sz model shape coll hook (make_dirs out w)
       = (Inr (outputs, ph), w1)"
    "select_checkpoint uma trained w1 = (Inr (ver, c), w2)"
    "new_saver (saveable_variables (default_graph w2)) ver = Inr sd"
    "write_graph_and_checkpoint (as_graph_def (default_graph w2))
       (os_path_join out ''model.ckpt'') sd c w2 = (Inr (), w3)"
    "output_node_names_of outputs add = Inr names"
    "freeze_graph_with_def_protos (as_graph_def (default_graph w3)) sd c names
       (os_path_join out ''frozen_inference_graph.pb'') w3 = (Inr fg, w4)"
    "priv_write_saved_model (os_path_join out ''saved_model'') trained ph outputs
       (write_frozen_graph (os_path_join out ''frozen_inference_graph.pb'') fg w4) = (Inr u, w')"
  using assms
  by (auto simp: export_inference_graph_def Let_def split: prod.splits sum.splits)

lemma os_path_join_nonempty: "b \<noteq> [] \<Longrightarrow> os_path_join a b \<noteq> []"
  by (simp add: os_path_join_def)

lemma output_node_names_of_Inr:
  "output_node_names_of outputs add = Inr names \<Longrightarrow>
   add = None \<and> names = comma_join (map fst outputs)"
  by (auto simp: output_node_names_of_def split: option.splits)

text \<open>What a successful export has done, step by step.\<close>

lemma export_Inr_facts:
  assumes ex: "export_inference_graph it sz model trained out shape uma coll add hook w
                 = (Inr u, w')"
  shows "\<exists>outputs ph c tv tck cv cck fg.
    add = None \<and>
    map fst outputs = [''classes'', ''logits''] \<and>
    (\<exists>d sh. ph = Tf_placeholder d sh it) \<and>
    g_variables (default_graph w') \<noteq> [] \<and>
    (uma = Some True \<longrightarrow> c = temp_names w (temp_next w)) \<and>
    (uma \<noteq> Some True \<longrightarrow> c = trained) \<and>
    calls w' = calls w @ [MakeDirs out] @
       (if uma = Some True then [Restore trained, Save c] else []) @
       [Restore c, Save (os_path_join out ''model.ckpt''),
        Freeze c ''classes,logits'' (os_path_join out ''frozen_inference_graph.pb''),
        Write_file (os_path_join out ''frozen_inference_graph.pb''),
        Restore trained, Builder_save (os_path_join out ''saved_model'')] \<and>
    checkpoints w' trained = Some (tv, tck) \<and>
    checkpoints w' c = Some (cv, cck) \<and>
    graph_files w' (os_path_join out ''frozen_inference_graph.pb'') = Some fg \<and>
    g_variables fg = [] \<and>
    saved_models w (os_path_join out ''saved_model'') = None \<and>
    saved_models w' (os_path_join out ''saved_model'') =
      Some \<lparr> sm_graph = default_graph w',
             sm_variables = (\<lambda>n. if n \<in> set (map v_name (g_variables (default_graph w')))
                                  then tck n else None),
             sm_tags = [SERVING],
             sm_signature_def_map =
               [(DEFAULT_SERVING_SIGNATURE_DEF_KEY, serving_signature ph outputs)] \<rparr>"
proof -
  from ex obtain outputs ph w1 ver c w2 sd w3 names fg w4 where
    b: "priv_build_model_graph it sz model shape coll hook (make_dirs out w)
       = (Inr (outputs, ph), w1)" and
    s: "select_checkpoint uma trained w1 = (Inr (ver, c), w2)" and
    n: "new_saver (saveable_variables (default_graph w2)) ver = Inr sd" and
    wg: "write_graph_and_checkpoint (as_graph_def (default_graph w2))
       (os_path_join out ''model.ckpt'') sd c w2 = (Inr (), w3)" and
    on: "output_node_names_of outputs add = Inr names" and
    fr: "freeze_graph_with_def_protos (as_graph_def (default_graph w3)) sd c names
       (os_path_join out ''frozen_inference_graph.pb'') w3 = (Inr fg, w4)" and
    sm: "priv_write_saved_model (os_path_join out ''saved_model'') trained ph outputs
       (write_frozen_graph (os_path_join out ''frozen_inference_graph.pb'') fg w4) = (Inr u, w')"
    by (rule export_InrE)
  let ?fp = "os_path_join out ''frozen_inference_graph.pb''"
  let ?mp = "os_path_join out ''model.ckpt''"
  let ?sp = "os_path_join out ''saved_model''"
  from build_frame [OF b] obtain g where w1: "w1 = (make_dirs out w)\<lparr>default_graph := g\<rparr>"
    by blast
  note B = build_Inr [OF b]
  note S = select_checkpoint_frame [OF s]
  note N = new_saver_Inr [OF n]
  note O = output_node_names_of_Inr [OF on]
  have names: "names = ''classes,logits''" using O B(1) by simp
  have g2: "default_graph w2 = g" using S(3) by (simp add: w1)
  have c_def: "(uma = Some True \<longrightarrow> c = temp_names w (temp_next w)) \<and>
               (uma \<noteq> Some True \<longrightarrow> c = trained)"
    using s select_checkpoint_ma [of trained w1 ver c w2, OF _ refl]
      select_checkpoint_plain [of uma trained w1]
    by (cases "uma = Some True") (auto simp: w1 make_dirs_def)
  have calls2: "calls w2 = calls w @ [MakeDirs out] @
       (if uma = Some True then [Restore trained, Save c] else [])"
    using s select_checkpoint_ma [of trained w1 ver c w2, OF _ refl]
      select_checkpoint_plain [of uma trained w1]
    by (cases "uma = Some True") (auto simp: w1 make_dirs_def)
  from write_graph_and_checkpoint_Inr [OF wg] obtain v1 ck1 where
    ck1: "checkpoints w2 c = Some (v1, ck1)" and
    w3: "w3 = w2\<lparr>calls := calls w2 @ [Restore c, Save ?mp],
            checkpoints := (checkpoints w2)
              (?mp \<mapsto> (sd_write_version sd,
                       \<lambda>n. if n \<in> set (map snd (sd_var_list sd))
                            then restore_session (sd_var_list sd) ck1 n else None))\<rparr>"
    by blast
  have fp: "?fp \<noteq> []" by (rule os_path_join_nonempty) simp
  from freeze_Inr [OF fr fp] obtain cv cck where
    cck: "checkpoints w3 c = Some (cv, cck)" and
    cv: "convert_variables_to_constants (restore_session (sd_var_list sd) cck)
           (as_graph_def (default_graph w3))
           (comma_split (filter (\<lambda>c. c \<noteq> CHR '' '') names)) = Inr fg" and
    w4: "w4 = w3\<lparr>calls := calls w3 @ [Freeze c names ?fp],
            default_graph := import_graph_def (as_graph_def (default_graph w3)) (default_graph w3),
            graph_files := (graph_files w3)(?fp \<mapsto> fg)\<rparr>"
    by blast
  have fgv: "g_variables fg = []" using convert_Inr [OF cv] by simp
  let ?w5 = "write_frozen_graph ?fp fg w4"
  from priv_write_saved_model_Inr [OF sm] obtain tv tck where
    tck: "checkpoints ?w5 trained = Some (tv, tck)" and
    vne: "g_variables (default_graph ?w5) \<noteq> []" and
    none: "saved_models ?w5 ?sp = None" and
    w': "w' = ?w5\<lparr>calls := calls ?w5 @ [Restore trained, Builder_save ?sp],
            saved_models := (saved_models ?w5)
              (?sp \<mapsto> \<lparr> sm_graph = default_graph ?w5,
                       sm_variables = (\<lambda>n. if n \<in> set (map v_name (g_variables (default_graph ?w5)))
                                            then tck n else None),
                       sm_tags = [SERVING],
                       sm_signature_def_map =
                         [(DEFAULT_SERVING_SIGNATURE_DEF_KEY, serving_signature ph outputs)] \<rparr>)\<rparr>"
    by blast
  have g5: "default_graph w' = default_graph ?w5" by (simp add: w')
  have ck': "checkpoints w' = checkpoints w3"
    by (simp add: w' write_frozen_graph_def w4)
  have calls': "calls w' = calls w @ [MakeDirs out] @
       (if uma = Some True then [Restore trained, Save c] else []) @
       [Restore c, Save ?mp, Freeze c ''classes,logits'' ?fp, Write_file ?fp,
        Restore trained, Builder_save ?sp]"
    by (simp add: w' write_frozen_graph_def w4 w3 calls2 names)
  have gf: "graph_files w' ?fp = Some fg"
    by (simp add: w' write_frozen_graph_def)
  have t': "checkpoints w' trained = Some (tv, tck)"
    using tck by (simp add: ck' write_frozen_graph_def w4)
  have c': "checkpoints w' c = Some (cv, cck)"
    using cck by (simp add: ck')
  have none0: "saved_models w ?sp = None"
    using none S(2) by (simp add: write_frozen_graph_def w4 w3 w1 make_dirs_def)
  have sm': "saved_models w' ?sp =
      Some \<lparr> sm_graph = default_graph w',
             sm_variables = (\<lambda>n. if n \<in> set (map v_name (g_variables (default_graph w')))
                                  then tck n else None),
             sm_tags = [SERVING],
             sm_signature_def_map =
               [(DEFAULT_SERVING_SIGNATURE_DEF_KEY, serving_signature ph outputs)] \<rparr>"
    unfolding g5 by (simp add: w')
  have vne': "g_variables (default_graph w') \<noteq> []" using vne by (simp add: g5)
  show ?thesis
    apply (rule exI [of _ outputs], rule exI [of _ ph], rule exI [of _ c])
    apply (rule exI [of _ tv], rule exI [of _ tck], rule exI [of _ cv], rule exI [of _ cck])
    apply (rule exI [of _ fg])
    using O B(1) B(3) vne' c_def calls' t' c' gf fgv none0 sm'
    apply (intro conjI)
    apply (erule conjunct1 | erule conjunct2 | assumption)+
    done
qed

lemma export_ma_checkpoint:
  assumes ex: "export_inference_graph it sz model trained out shape (Some True) coll add hook w
                 = (Inr u, w')"
  shows "\<exists>rv raw cv cck.
    checkpoints w trained = Some (rv, raw) \<and>
    checkpoints w' (temp_names w (temp_next w)) = Some (cv, cck) \<and>
    (\<forall>n \<in> set (map v_name (g_variables (default_graph w'))).
       cck n = restore_session (ema_variables_to_restore (g_variables (default_graph w'))) raw n \<and>
       cck n \<noteq> None)"
proof -
  from ex obtain outputs ph w1 ver c w2 sd w3 names fg w4 where
    b: "priv_build_model_graph it sz model shape coll hook (make_dirs out w)
       = (Inr (outputs, ph), w1)" and
    s: "select_checkpoint (Some True) trained w1 = (Inr (ver, c), w2)" and
    n: "new_saver (saveable_variables (default_graph w2)) ver = Inr sd" and
    wg: "write_graph_and_checkpoint (as_graph_def (default_graph w2))
       (os_path_join out ''model.ckpt'') sd c w2 = (Inr (), w3)" and
    fr: "freeze_graph_with_def_protos (as_graph_def (default_graph w3)) sd c names
       (os_path_join out ''frozen_inference_graph.pb'') w3 = (Inr fg, w4)" and
    sm: "priv_write_saved_model (os_path_join out ''saved_model'') trained ph outputs
       (write_frozen_graph (os_path_join out ''frozen_inference_graph.pb'') fg w4) = (Inr u, w')"
    by (rule export_InrE)
  from build_frame [OF b] obtain g where w1: "w1 = (make_dirs out w)\<lparr>default_graph := g\<rparr>"
    by blast
  let ?fp = "os_path_join out ''frozen_inference_graph.pb''"
  let ?mp = "os_path_join out ''model.ckpt''"
  let ?names = "set (map v_name (g_variables g))"
  let ?f1 = "\<lambda>raw n. if n \<in> ?names
                     then restore_session (ema_variables_to_restore (g_variables g)) raw n
                     else None"
  have "g_variables (default_graph w1) = g_variables g" by (simp add: w1)
  note SM = select_checkpoint_ma [OF s this]
  have c: "c = temp_names w (temp_next w)" using SM by (simp add: w1 make_dirs_def)
  have g2: "default_graph w2 = g" using SM by (simp add: w1)
  have "\<exists>rv raw. checkpoints w trained = Some (rv, raw) \<and>
          checkpoints w2 = (checkpoints w)(c \<mapsto> (V2, ?f1 raw))"
    using SM [THEN conjunct2, THEN conjunct2, THEN conjunct2, THEN conjunct2, THEN conjunct2,
              THEN conjunct2]
    by (simp add: w1 make_dirs_def) blast
  then obtain rv raw where
    raw: "checkpoints w trained = Some (rv, raw)" and
    ck2: "checkpoints w2 = (checkpoints w)(c \<mapsto> (V2, ?f1 raw))"
    by blast
  note N = new_saver_Inr [OF n]
  have vl: "sd_var_list sd = saveable_variables g"
    and sn: "map snd (sd_var_list sd) = map v_name (g_variables g)"
    using N by (simp_all add: g2 saveable_variables_names)
  from write_graph_and_checkpoint_Inr [OF wg] obtain v1 k1 where
    k1: "checkpoints w2 c = Some (v1, k1)" and
    all1: "list_all (\<lambda>(key, v). k1 key \<noteq> None) (sd_var_list sd)" and
    w3: "w3 = w2\<lparr>calls := calls w2 @ [Restore c, Save ?mp],
            checkpoints := (checkpoints w2)
              (?mp \<mapsto> (sd_write_version sd,
                       \<lambda>n. if n \<in> set (map snd (sd_var_list sd))
                            then restore_session (sd_var_list sd) k1 n else None))\<rparr>"
    by blast
  have k1_eq: "k1 = ?f1 raw" using k1 ck2 by simp
  have fp: "?fp \<noteq> []" by (rule os_path_join_nonempty) simp
  from freeze_Inr [OF fr fp] have w4: "\<exists>x. w4 = w3\<lparr>calls := calls w3 @ [Freeze c names ?fp],
            default_graph := import_graph_def (as_graph_def (default_graph w3)) (default_graph w3),
            graph_files := (graph_files w3)(?fp \<mapsto> x)\<rparr>"
    by blast
  from priv_write_saved_model_Inr [OF sm] have
    ck': "checkpoints w' = checkpoints w3" and g': "g_variables (default_graph w') = g_variables g"
    using w4 by (auto simp: write_frozen_graph_def w3 g2 import_graph_def_variables)
  have nn: "\<forall>n \<in> ?names. k1 n \<noteq> None"
    using all1 unfolding vl by (auto simp: list_all_iff saveable_variables_def)
  have own: "\<forall>n \<in> ?names. restore_session (sd_var_list sd) k1 n = k1 n"
    unfolding vl using restore_session_own [of _ g k1] by blast
  obtain cv cck where cc: "checkpoints w3 c = Some (cv, cck)"
    and same: "\<forall>n \<in> ?names. cck n = k1 n"
  proof (cases "?mp = c")
    case True
    show ?thesis
      by (rule that [of "sd_write_version sd"
            "\<lambda>n. if n \<in> set (map snd (sd_var_list sd))
                 then restore_session (sd_var_list sd) k1 n else None"])
         (use True own in \<open>auto simp: w3 sn\<close>)
  next
    case False
    show ?thesis
      by (rule that [of v1 k1]) (use False k1 in \<open>auto simp: w3\<close>)
  qed
  have "\<forall>n \<in> ?names.
       cck n = restore_session (ema_variables_to_restore (g_variables g)) raw n \<and> cck n \<noteq> None"
    using same nn by (auto simp: k1_eq)
  with raw cc show ?thesis
    unfolding g' ck' c by blast
qed

lemmas export_defs = export_inference_graph_def Let_def make_dirs_def os_path_join_def
  priv_build_model_graph_def input_placeholder_fn_map_def call_placeholder_fn_def
  priv_image_tensor_input_placeholder_def priv_encoded_image_string_tensor_input_placeholder_def
  priv_get_outputs_from_inputs_def model_preprocess_def model_postprocess_def
  priv_add_output_tensor_nodes_def get_or_create_global_step_def select_checkpoint_def
  os_path_isfile_def named_temporary_file_name_def mkdtemp_def tf_op_def
  replace_variable_values_with_moving_averages_def ema_variables_to_restore_def average_name_def
  new_saver_def saveable_variables_def saver_restore_def restore_session_def saver_save_def
  write_graph_and_checkpoint_def output_node_names_of_def freeze_graph_with_def_protos_def
  as_graph_def_def import_graph_def_def graph_def_nodes_def convert_variables_to_constants_def
  write_frozen_graph_def priv_write_saved_model_def builder_save_def serving_signature_def

lemmas sample_export_defs = sample_model_def trained_checkpoint_def empty_graph_def
  sample_world_def

lemma sample_plain_fst: "fst sample_plain_export = Inr ()"
  by (simp add: sample_plain_export_def export_defs sample_export_defs)

lemma sample_ma_fst: "fst sample_ma_export = Inr ()"
  by (simp add: sample_ma_export_def export_defs sample_export_defs)

lemma sample_ma_variables:
  "g_variables (default_graph (snd sample_ma_export)) =
     [\<lparr> v_name = ''w'', v_trainable = True \<rparr>,
      \<lparr> v_name = ''bn/moving_mean'', v_trainable = False \<rparr>,
      \<lparr> v_name = ''global_step'', v_trainable = False \<rparr>]"
  by (simp add: sample_ma_export_def export_defs sample_export_defs)

lemma sample_paths:
  "os_path_join ''/out'' ''model.ckpt'' = ''/out/model.ckpt''"
  "os_path_join ''/out'' ''saved_model'' = ''/out/saved_model''"
  "os_path_join ''/out'' ''frozen_inference_graph.pb'' = ''/out/frozen_inference_graph.pb''"
  by (simp_all add: os_path_join_def)

text \<open>
  Claim C3. In an export with \<open>use_moving_averages\<close> true that returns (the variable names
  of the graph being distinct), a new checkpoint is written at a temporary path before
  anything else is read from it, and that path, not \<open>trained_checkpoint_prefix\<close>, is the
  input checkpoint of the freezing call. The new checkpoint holds, under the name of every
  trainable variable, the value the trained checkpoint has under the variable's
  moving-average name (and under the name of any other variable its own value).
\<close>

theorem C3_moving_average_checkpoint_is_frozen:
  assumes ex: "export_inference_graph it sz model trained out shape (Some True) coll add hook w
                 = (Inr u, w')"
    and dist: "distinct (map v_name (g_variables (default_graph w')))"
  shows "\<exists>rv raw cv cck.
    checkpoints w trained = Some (rv, raw) \<and>
    calls w' = calls w @
      [MakeDirs out,
       Restore trained, Save (temp_names w (temp_next w)),
       Restore (temp_names w (temp_next w)), Save (os_path_join out ''model.ckpt''),
       Freeze (temp_names w (temp_next w)) ''classes,logits''
         (os_path_join out ''frozen_inference_graph.pb''),
       Write_file (os_path_join out ''frozen_inference_graph.pb''),
       Restore trained, Builder_save (os_path_join out ''saved_model'')] \<and>
    checkpoints w' (temp_names w (temp_next w)) = Some (cv, cck) \<and>
    (\<forall>v \<in> set (g_variables (default_graph w')).
       cck (v_name v) = raw (if v_trainable v then average_name (v_name v) else v_name v) \<and>
       cck (v_name v) \<noteq> None)"
proof -
  let ?tmp = "temp_names w (temp_next w)"
  let ?vars = "g_variables (default_graph w')"
  from export_Inr_facts [OF ex] show ?thesis
  proof (elim exE conjE)
  fix outputs ph c tv tck cv cck fg
  assume c0: "Some True = Some True \<longrightarrow> c = ?tmp" and
    calls: "calls w' = calls w @ [MakeDirs out] @
       (if Some True = Some True then [Restore trained, Save c] else []) @
       [Restore c, Save (os_path_join out ''model.ckpt''),
        Freeze c ''classes,logits'' (os_path_join out ''frozen_inference_graph.pb''),
        Write_file (os_path_join out ''frozen_inference_graph.pb''),
        Restore trained, Builder_save (os_path_join out ''saved_model'')]" and
    cc: "checkpoints w' c = Some (cv, cck)"
  have c: "c = ?tmp" using c0 by simp
  from export_ma_checkpoint [OF ex] obtain rv raw cv' cck' where
    raw: "checkpoints w trained = Some (rv, raw)" and
    cc': "checkpoints w' ?tmp = Some (cv', cck')" and
    vals: "\<forall>n \<in> set (map v_name ?vars).
       cck' n = restore_session (ema_variables_to_restore ?vars) raw n \<and> cck' n \<noteq> None"
    by blast
  have same: "cck' = cck" using cc cc' c by simp
  have a: "\<forall>v \<in> set ?vars.
       cck (v_name v) = raw (if v_trainable v then average_name (v_name v) else v_name v) \<and>
       cck (v_name v) \<noteq> None"
  proof
    fix v assume v: "v \<in> set ?vars"
    then have "v_name v \<in> set (map v_name ?vars)" by simp
    with vals have "cck (v_name v) = restore_session (ema_variables_to_restore ?vars) raw (v_name v)"
      and "cck (v_name v) \<noteq> None"
      unfolding same by blast+
    then show "cck (v_name v) = raw (if v_trainable v then average_name (v_name v) else v_name v) \<and>
       cck (v_name v) \<noteq> None"
      using restore_session_ema [OF dist v, of raw] by simp
  qed
  have calls': "calls w' = calls w @
      [MakeDirs out, Restore trained, Save ?tmp, Restore ?tmp,
       Save (os_path_join out ''model.ckpt''),
       Freeze ?tmp ''classes,logits'' (os_path_join out ''frozen_inference_graph.pb''),
       Write_file (os_path_join out ''frozen_inference_graph.pb''),
       Restore trained, Builder_save (os_path_join out ''saved_model'')]"
    using calls unfolding c by simp
  have cc'': "checkpoints w' ?tmp = Some (cv, cck)" using cc c by simp
  show ?thesis
    apply (rule exI [of _ rv], rule exI [of _ raw], rule exI [of _ cv], rule exI [of _ cck])
    apply (rule conjI [OF raw conjI [OF calls' conjI [OF cc'' a]]])
    done
  qed
qed


text \<open>
  Claim C10. With \<open>additional_output_tensor_names\<close> supplied the export never returns:
  it writes no graph file and no bundle and never reaches the freezing call. Whenever
  the steps before line 395 succeed (the graph is built, the checkpoint to use is
  chosen, the saver is made, the graph's checkpoint is written), the export raises the
  \<open>TypeError\<close> of the addition and stops in the state these steps leave, in which the
  checkpoint at \<open>model.ckpt\<close> has been written.
\<close>

theorem C10_additional_output_names_raise:
  "isl (fst (export_inference_graph it sz model trained out shape uma coll (Some names) hook w)) \<and>
   graph_files (snd (export_inference_graph it sz model trained out shape uma coll
                       (Some names) hook w)) = graph_files w \<and>
   saved_models (snd (export_inference_graph it sz model trained out shape uma coll
                        (Some names) hook w)) = saved_models w \<and>
   (\<exists>cs. calls (snd (export_inference_graph it sz model trained out shape uma coll
                       (Some names) hook w)) = calls w @ cs \<and>
         (\<forall>a b d. Freeze a b d \<notin> set cs)) \<and>
   (\<forall>outputs ph w1 ver c w2 sd w3.
      priv_build_model_graph it sz model shape coll hook (make_dirs out w)
        = (Inr (outputs, ph), w1) \<and>
      select_checkpoint uma trained w1 = (Inr (ver, c), w2) \<and>
      new_saver (saveable_variables (default_graph w2)) ver = Inr sd \<and>
      write_graph_and_checkpoint (as_graph_def (default_graph w2))
        (os_path_join out ''model.ckpt'') sd c w2 = (Inr (), w3) \<longrightarrow>
      export_inference_graph it sz model trained out shape uma coll (Some names) hook w =
        (Inl (TypeError (''unsupported operand type(s) for +: 'dict_keys' and 'list''
                          @ [CHR 0x27])), w3) \<and>
      checkpoints w3 (os_path_join out ''model.ckpt'') \<noteq> None)"
proof -
  let ?rS = "export_inference_graph it sz model trained out shape uma coll (Some names) hook w"
  have eqS: "?rS = (fst ?rS, snd ?rS)" by simp
  note A = export_additional_cases [OF eqS]
  have a1: "isl (fst ?rS)" using A(1) by auto
  have b: "\<forall>outputs ph w1 ver c w2 sd w3.
      priv_build_model_graph it sz model shape coll hook (make_dirs out w)
        = (Inr (outputs, ph), w1) \<and>
      select_checkpoint uma trained w1 = (Inr (ver, c), w2) \<and>
      new_saver (saveable_variables (default_graph w2)) ver = Inr sd \<and>
      write_graph_and_checkpoint (as_graph_def (default_graph w2))
        (os_path_join out ''model.ckpt'') sd c w2 = (Inr (), w3) \<longrightarrow>
      ?rS = (Inl (TypeError (''unsupported operand type(s) for +: 'dict_keys' and 'list''
                          @ [CHR 0x27])), w3) \<and>
      checkpoints w3 (os_path_join out ''model.ckpt'') \<noteq> None"
  proof (intro allI impI, elim conjE)
    fix outputs ph w1 ver c w2 sd w3
    assume b: "priv_build_model_graph it sz model shape coll hook (make_dirs out w)
        = (Inr (outputs, ph), w1)"
      and s: "select_checkpoint uma trained w1 = (Inr (ver, c), w2)"
      and n: "new_saver (saveable_variables (default_graph w2)) ver = Inr sd"
      and wg: "write_graph_and_checkpoint (as_graph_def (default_graph w2))
        (os_path_join out ''model.ckpt'') sd c w2 = (Inr (), w3)"
    have r: "?rS = (Inl (TypeError (''unsupported operand type(s) for +: 'dict_keys' and 'list''
                          @ [CHR 0x27])), w3)"
      using b s n wg by (simp add: export_inference_graph_def Let_def output_node_names_of_def)
    from write_graph_and_checkpoint_Inr [OF wg]
    have mp: "checkpoints w3 (os_path_join out ''model.ckpt'') \<noteq> None" by auto
    from r mp show "?rS = (Inl (TypeError (''unsupported operand type(s) for +: 'dict_keys' and 'list''
                          @ [CHR 0x27])), w3) \<and>
      checkpoints w3 (os_path_join out ''model.ckpt'') \<noteq> None" by (rule conjI)
  qed
  show ?thesis
    by (rule conjI [OF a1 conjI [OF A(2) conjI [OF A(3) conjI [OF A(4) b]]]])
qed

theorem C3_moving_average_checkpoint_is_frozen_witness:
  "fst sample_ma_export = Inr () \<and>
   trained_checkpoint ''w'' = Some 1 \<and>
   trained_checkpoint ''w/ExponentialMovingAverage'' = Some 2 \<and>
   calls (snd sample_ma_export) =
     [MakeDirs ''/out'',
      Restore ''/train/model.ckpt'', Save ''/tmp/tmpexport'',
      Restore ''/tmp/tmpexport'', Save ''/out/model.ckpt'',
      Freeze ''/tmp/tmpexport'' ''classes,logits'' ''/out/frozen_inference_graph.pb'',
      Write_file ''/out/frozen_inference_graph.pb'',
      Restore ''/train/model.ckpt'', Builder_save ''/out/saved_model''] \<and>
   map_option (\<lambda>p. snd p ''w'') (checkpoints (snd sample_ma_export) ''/tmp/tmpexport'')
     = Some (Some 2)"
proof -
  let ?W = "snd sample_ma_export"
  have h: "export_inference_graph ''image_tensor'' 299 sample_model ''/train/model.ckpt'' ''/out''
      None (Some True) ''inference_op'' None None sample_world = (Inr (), ?W)"
    using sample_ma_fst by (simp add: sample_ma_export_def prod_eq_iff)
  have d: "distinct (map v_name (g_variables (default_graph ?W)))"
    by (simp add: sample_ma_variables)
  from C3_moving_average_checkpoint_is_frozen [OF h d]
  obtain rv raw cv cck where
    raw: "checkpoints sample_world ''/train/model.ckpt'' = Some (rv, raw)" and
    calls: "calls ?W = calls sample_world @
      [MakeDirs ''/out'',
       Restore ''/train/model.ckpt'', Save (temp_names sample_world (temp_next sample_world)),
       Restore (temp_names sample_world (temp_next sample_world)),
       Save (os_path_join ''/out'' ''model.ckpt''),
       Freeze (temp_names sample_world (temp_next sample_world)) ''classes,logits''
         (os_path_join ''/out'' ''frozen_inference_graph.pb''),
       Write_file (os_path_join ''/out'' ''frozen_inference_graph.pb''),
       Restore ''/train/model.ckpt'', Builder_save (os_path_join ''/out'' ''saved_model'')]" and
    cc: "checkpoints ?W (temp_names sample_world (temp_next sample_world)) = Some (cv, cck)" and
    vals: "\<forall>v \<in> set (g_variables (default_graph ?W)).
       cck (v_name v) = raw (if v_trainable v then average_name (v_name v) else v_name v) \<and>
       cck (v_name v) \<noteq> None"
    by (elim exE conjE)
  have tmp: "temp_names sample_world (temp_next sample_world) = ''/tmp/tmpexport''"
    by (simp add: sample_world_def)
  have raw_eq: "raw = trained_checkpoint" using raw by (simp add: sample_world_def)
  have t1: "trained_checkpoint ''w'' = Some 1"
    and t2: "trained_checkpoint ''w/ExponentialMovingAverage'' = Some 2"
    by (simp_all add: trained_checkpoint_def)
  have calls': "calls ?W =
     [MakeDirs ''/out'',
      Restore ''/train/model.ckpt'', Save ''/tmp/tmpexport'',
      Restore ''/tmp/tmpexport'', Save ''/out/model.ckpt'',
      Freeze ''/tmp/tmpexport'' ''classes,logits'' ''/out/frozen_inference_graph.pb'',
      Write_file ''/out/frozen_inference_graph.pb'',
      Restore ''/train/model.ckpt'', Builder_save ''/out/saved_model'']"
    using calls unfolding tmp sample_paths by (simp add: sample_world_def)
  let ?w = "\<lparr> v_name = ''w'', v_trainable = True \<rparr>"
  have mem: "?w \<in> set (g_variables (default_graph ?W))"
    by (simp add: sample_ma_variables)
  have "cck (v_name ?w) = raw (if v_trainable ?w then average_name (v_name ?w) else v_name ?w)"
    using vals mem by blast
  then have cw: "cck ''w'' = Some 2"
    by (simp add: raw_eq average_name_def t2)
  have ckw: "map_option (\<lambda>p. snd p ''w'') (checkpoints ?W ''/tmp/tmpexport'') = Some (Some 2)"
    using cc cw unfolding tmp by simp
  show ?thesis
    by (rule conjI [OF sample_ma_fst conjI [OF t1 conjI [OF t2 conjI [OF calls' ckw]]]])
qed



theorem C5_build_model_graph_rejects_witness:
  "priv_build_model_graph ''tf_example'' 299 sample_model None ''inference_op'' None sample_world
     = (Inl (ValueError ''Unknown input type: tf_example''), sample_world) \<and>
   priv_build_model_graph ''encoded_image_string_tensor'' 299 sample_model
       (Some [Some 1, Some 299, Some 299, Some 3]) ''inference_op'' None sample_world
     = (Inl (ValueError ''Can only specify input shape for 'image_tensor' inputs.''),
        sample_world)"
proof -
  have h1: "''tf_example'' \<noteq> ''image_tensor'' \<and> ''tf_example'' \<noteq> ''encoded_image_string_tensor''"
    by simp
  have h2: "Some [Some 1, Some 299, Some 299, Some (3::int)] = Some [Some 1, Some 299, Some 299, Some 3]
            \<and> ''encoded_image_string_tensor'' = ''encoded_image_string_tensor''"
    by simp
  note a = C5_build_model_graph_rejects [where it = "''tf_example''" and sz = 299
      and model = sample_model and shape = None and coll = "''inference_op''" and hook = None
      and w = sample_world, THEN conjunct1, THEN mp, OF h1]
  note b = C5_build_model_graph_rejects [where it = "''encoded_image_string_tensor''" and sz = 299
      and model = sample_model and shape = "Some [Some 1, Some 299, Some 299, Some 3]"
      and coll = "''inference_op''" and hook = None and w = sample_world,
      THEN conjunct2, THEN conjunct2, THEN spec, THEN mp, OF h2]
  have a': "priv_build_model_graph ''tf_example'' 299 sample_model None ''inference_op'' None
      sample_world = (Inl (ValueError ''Unknown input type: tf_example''), sample_world)"
    using a by simp
  show ?thesis by (rule conjI [OF a' b])
qed

theorem C10_additional_output_names_raise_witness:
  "fst sample_plain_export = Inr () \<and>
   fst sample_additional_export =
     Inl (TypeError (''unsupported operand type(s) for +: 'dict_keys' and 'list''
                      @ [CHR 0x27])) \<and>
   graph_files (snd sample_additional_export) = graph_files sample_world \<and>
   saved_models (snd sample_additional_export) = saved_models sample_world \<and>
   checkpoints (snd sample_additional_export) ''/out/model.ckpt'' \<noteq> None"
proof -
  have h: "export_inference_graph ''image_tensor'' 299 sample_model ''/train/model.ckpt'' ''/out''
      None None ''inference_op'' None None sample_world = (Inr (), snd sample_plain_export)"
    using sample_plain_fst by (simp add: sample_plain_export_def prod_eq_iff)
  from h obtain outputs ph w1 ver c w2 sd w3 where
    steps: "priv_build_model_graph ''image_tensor'' 299 sample_model None ''inference_op'' None
         (make_dirs ''/out'' sample_world) = (Inr (outputs, ph), w1) \<and>
       select_checkpoint None ''/train/model.ckpt'' w1 = (Inr (ver, c), w2) \<and>
       new_saver (saveable_variables (default_graph w2)) ver = Inr sd \<and>
       write_graph_and_checkpoint (as_graph_def (default_graph w2))
         (os_path_join ''/out'' ''model.ckpt'') sd c w2 = (Inr (), w3)"
    by (rule export_InrE) blast
  note t = C10_additional_output_names_raise [where it = "''image_tensor''" and sz = 299
      and model = sample_model and trained = "''/train/model.ckpt''" and out = "''/out''"
      and shape = None and uma = None and coll = "''inference_op''"
      and names = "[''Softmax'']" and hook = None and w = sample_world]
  note t5 = t [THEN conjunct2, THEN conjunct2, THEN conjunct2, THEN conjunct2,
               THEN spec, THEN spec, THEN spec, THEN spec, THEN spec, THEN spec, THEN spec,
               THEN spec, THEN mp, OF steps]
  note gf = t [THEN conjunct2, THEN conjunct1, folded sample_additional_export_def]
  note sm = t [THEN conjunct2, THEN conjunct2, THEN conjunct1, folded sample_additional_export_def]
  have ty: "fst sample_additional_export =
     Inl (TypeError (''unsupported operand type(s) for +: 'dict_keys' and 'list''
                      @ [CHR 0x27]))"
    unfolding sample_additional_export_def t5 [THEN conjunct1] by simp
  have "snd sample_additional_export = w3"
    unfolding sample_additional_export_def t5 [THEN conjunct1] by simp
  then have ck: "checkpoints (snd sample_additional_export) ''/out/model.ckpt'' \<noteq> None"
    using t5 [THEN conjunct2] unfolding sample_paths by simp
  show ?thesis
    by (rule conjI [OF sample_plain_fst conjI [OF ty conjI [OF gf conjI [OF sm ck]]]])
qed

end
